theory Spec2Isabelle
  imports Complex_Main
begin

section \<open>JavaScript values shared by the models\<close>

text \<open>
  Exceptions of the source become values: a function that can throw returns
  \<open>js_error + 'a\<close>, with \<open>Inl\<close> carrying the exception. The string is the fixed part of
  the message (the interpolated \<open>Got: ...\<close> tail is left out).
\<close>

datatype js_error = TypeError string | Error string | ReferenceError string

section \<open>View explorer frame: \<open>packages/view/frame/index.js\<close>\<close>

subsection \<open>String primitives used by \<open>sentenceCase\<close>, \<open>slugCase\<close> and \<open>joinPath\<close>\<close>

text \<open>
  Strings are lists of \<open>char\<close>, and the identifiers and file names these functions
  are given are taken to be ASCII: \<open>toLowerCase\<close> and \<open>toUpperCase\<close> change the ASCII
  letters and nothing else.
\<close>

definition NUL :: char where
  "NUL = CHR 0x00"

definition is_upper :: "char \<Rightarrow> bool" where
  "is_upper c = (let n = (of_char c :: nat) in 65 \<le> n \<and> n \<le> 90)"

definition is_lower :: "char \<Rightarrow> bool" where
  "is_lower c = (let n = (of_char c :: nat) in 97 \<le> n \<and> n \<le> 122)"

definition is_digit :: "char \<Rightarrow> bool" where
  "is_digit c = (let n = (of_char c :: nat) in 48 \<le> n \<and> n \<le> 57)"

text \<open>The class \<open>[A-Z0-9]\<close> under the \<open>i\<close> flag.\<close>

definition is_alnum :: "char \<Rightarrow> bool" where
  "is_alnum c = (is_upper c \<or> is_lower c \<or> is_digit c)"

definition toLowerChar :: "char \<Rightarrow> char" where
  "toLowerChar c = (if is_upper c then char_of (of_char c + (32::nat)) else c)"

definition toUpperChar :: "char \<Rightarrow> char" where
  "toUpperChar c = (if is_lower c then char_of (of_char c - (32::nat)) else c)"

definition toLowerCase :: "string \<Rightarrow> string" where
  "toLowerCase s = map toLowerChar s"

definition startsWith :: "string \<Rightarrow> string \<Rightarrow> bool" where
  "startsWith s p = (take (length p) s = p)"

definition endsWith :: "string \<Rightarrow> string \<Rightarrow> bool" where
  "endsWith s p = (drop (length s - length p) s = p \<and> length p \<le> length s)"

text \<open>
  \<open>String.prototype.replace\<close> with a pattern that is not a regular expression: the
  pattern is converted to a string and only its first occurrence is replaced. In the
  replacement, \<open>$$\<close> stands for a dollar sign, \<open>$&\<close> for the matched text, \<open>$`\<close> and
  \<open>$'\<close> for the text before and after the match; a string pattern has no capture
  groups, so \<open>$1\<close>, \<open>$2\<close>, ... stay as they are written.
\<close>

fun find_first :: "string \<Rightarrow> string \<Rightarrow> nat option" where
  "find_first pat [] = (if pat = [] then Some 0 else None)"
| "find_first pat (c # cs) =
     (if startsWith (c # cs) pat then Some 0
      else map_option Suc (find_first pat cs))"

fun expand_replacement :: "string \<Rightarrow> string \<Rightarrow> string \<Rightarrow> string \<Rightarrow> string" where
  "expand_replacement matched preceding following [] = []"
| "expand_replacement matched preceding following [c] = [c]"
| "expand_replacement matched preceding following (c # d # rest) =
     (if c = CHR ''$'' \<and> d = CHR ''$''
        then CHR ''$'' # expand_replacement matched preceding following rest
      else if c = CHR ''$'' \<and> d = CHR ''&''
        then matched @ expand_replacement matched preceding following rest
      else if c = CHR ''$'' \<and> d = CHR 0x60
        then preceding @ expand_replacement matched preceding following rest
      else if c = CHR ''$'' \<and> d = CHR 0x27
        then following @ expand_replacement matched preceding following rest
      else c # expand_replacement matched preceding following (d # rest))"

definition replace_first :: "string \<Rightarrow> string \<Rightarrow> string \<Rightarrow> string" where
  "replace_first pat rep s =
     (case find_first pat s of
        None \<Rightarrow> s
      | Some i \<Rightarrow>
          (let preceding = take i s; following = drop (i + length pat) s
           in preceding @ expand_replacement pat preceding following rep @ following))"

text \<open>
  \<open>SPLIT_REGEXP\<close> is an array of two regular expressions. Passed to \<open>replace\<close> it is
  not a regular expression, so it is converted with \<open>String(...)\<close>: the two sources
  joined by a comma.
\<close>

definition SPLIT_REGEXP_string :: string where
  "SPLIT_REGEXP_string = ''/([a-z0-9])([A-Z])/g,/([A-Z])([A-Z][a-z])/g''"

definition split_replacement :: string where
  "split_replacement = ''$1'' @ [NUL] @ ''$2''"

text \<open>
  \<open>.replace(STRIP_REGEXP, "\0")\<close> with \<open>STRIP_REGEXP = /[^A-Z0-9]+/gi\<close>: every maximal
  run of characters outside the class becomes one delimiter.
\<close>

function strip_replace :: "string \<Rightarrow> string" where
  "strip_replace [] = []"
| "strip_replace (c # cs) =
     (if is_alnum c then c # strip_replace cs
      else NUL # strip_replace (dropWhile (\<lambda>x. \<not> is_alnum x) cs))"
  by pat_completeness auto
termination
  by (relation "measure length") (auto simp: le_imp_less_Suc length_dropWhile_le)

text \<open>\<open>String.prototype.split\<close> on a one-character separator.\<close>

fun split_on :: "char \<Rightarrow> string \<Rightarrow> string list" where
  "split_on d [] = [[]]"
| "split_on d (c # cs) =
     (if c = d then [] # split_on d cs
      else (case split_on d cs of
              [] \<Rightarrow> [[c]]
            | w # ws \<Rightarrow> (c # w) # ws))"

text \<open>\<open>Array.prototype.join\<close>.\<close>

fun join :: "string \<Rightarrow> string list \<Rightarrow> string" where
  "join sep [] = []"
| "join sep [w] = w"
| "join sep (w # v # ws) = w @ sep @ join sep (v # ws)"

subsection \<open>\<open>sentenceCase\<close> and \<open>slugCase\<close>\<close>

text \<open>
  Both functions begin alike: the two \<open>replace\<close> calls, the two \<open>while\<close> loops that
  move \<open>start\<close> and \<open>end\<close> past delimiters (\<open>charAt\<close> out of range is the empty string,
  which ends either loop), \<open>slice(start, end)\<close> (empty when \<open>end \<le> start\<close>), the
  split and the lower-casing of each token.
\<close>

text \<open>
  \<open>SPLIT_REGEXP\<close> and \<open>STRIP_REGEXP\<close> are declared with \<open>const\<close> at lines 211 and 214
  of the module. Its only calls of \<open>formatCollection\<close>, and through it of
  \<open>sentenceCase\<close> and \<open>slugCase\<close>, are made by the loop at lines 120 to 122, which runs
  while the module is evaluated from top to bottom. What reading one of the constants
  gives depends on where that evaluation stands:

    \<^item> \<open>Uninitialized\<close>: the declaration has not been evaluated; the \<open>const\<close> is in its
      temporal dead zone and reading it throws a \<open>ReferenceError\<close>;
    \<^item> \<open>Undefined\<close>: the same, after a bundler has lowered the declaration to a hoisted
      \<open>var\<close> (the module imports \<open>@woofjs/client\<close> by a bare specifier, which a
      browser resolves only with such help): reading it gives \<open>undefined\<close>;
    \<^item> \<open>Initialized\<close>: the declaration has been evaluated.
\<close>

datatype binding = Uninitialized | Undefined | Initialized

record module_scope =
  SPLIT_REGEXP :: binding
  STRIP_REGEXP :: binding

text \<open>
  The scope as the loop at lines 120 to 122 finds it, in the module as it is written
  and in the module as bundled, and the scope once line 214 has been evaluated.
\<close>

definition at_top_level_loop :: module_scope where
  "at_top_level_loop = \<lparr>SPLIT_REGEXP = Uninitialized, STRIP_REGEXP = Uninitialized\<rparr>"

definition at_top_level_loop_bundled :: module_scope where
  "at_top_level_loop_bundled = \<lparr>SPLIT_REGEXP = Undefined, STRIP_REGEXP = Undefined\<rparr>"

definition after_declarations :: module_scope where
  "after_declarations = \<lparr>SPLIT_REGEXP = Initialized, STRIP_REGEXP = Initialized\<rparr>"

text \<open>
  The two \<open>replace\<close> calls. The argument is read when its call is made, the second
  after the first call has returned. \<open>undefined\<close> as a pattern is converted to the
  string \<open>undefined\<close>, like any pattern that is not a regular expression.
\<close>

definition delimited :: "module_scope \<Rightarrow> string \<Rightarrow> js_error + string" where
  "delimited scope input =
     (case SPLIT_REGEXP scope of
        Uninitialized \<Rightarrow>
          Inl (ReferenceError ''Cannot access SPLIT_REGEXP before initialization'')
      | split \<Rightarrow>
          (let split_done =
                 replace_first
                   (if split = Undefined then ''undefined'' else SPLIT_REGEXP_string)
                   split_replacement input
           in case STRIP_REGEXP scope of
                Uninitialized \<Rightarrow>
                  Inl (ReferenceError ''Cannot access STRIP_REGEXP before initialization'')
              | Undefined \<Rightarrow> Inr (replace_first ''undefined'' [NUL] split_done)
              | Initialized \<Rightarrow> Inr (strip_replace split_done)))"

definition trim_start :: "string \<Rightarrow> nat" where
  "trim_start result = length (takeWhile (\<lambda>c. c = NUL) result)"

definition trim_end :: "string \<Rightarrow> nat" where
  "trim_end result = length result - length (takeWhile (\<lambda>c. c = NUL) (rev result))"

definition slice :: "nat \<Rightarrow> nat \<Rightarrow> string \<Rightarrow> string" where
  "slice start end s = take (end - start) (drop start s)"

definition tokens :: "module_scope \<Rightarrow> string \<Rightarrow> js_error + string list" where
  "tokens scope input =
     (case delimited scope input of
        Inl e \<Rightarrow> Inl e
      | Inr result \<Rightarrow>
          Inr (map toLowerCase
                 (split_on NUL (slice (trim_start result) (trim_end result) result))))"

text \<open>
  \<open>sentenceCase\<close> ends with \<open>result[0].toUpperCase() + result.slice(1)\<close>; on the empty
  string \<open>result[0]\<close> is \<open>undefined\<close> and the call throws a \<open>TypeError\<close>.
\<close>

definition sentenceCase :: "module_scope \<Rightarrow> string \<Rightarrow> js_error + string" where
  "sentenceCase scope input =
     (case tokens scope input of
        Inl e \<Rightarrow> Inl e
      | Inr words \<Rightarrow>
          (case join '' '' words of
             [] \<Rightarrow> Inl (TypeError ''Cannot read properties of undefined'')
           | c # cs \<Rightarrow> Inr (toUpperChar c # cs)))"

definition slugCase :: "module_scope \<Rightarrow> string \<Rightarrow> js_error + string" where
  "slugCase scope input =
     (case tokens scope input of
        Inl e \<Rightarrow> Inl e
      | Inr words \<Rightarrow> Inr (join ''-'' words))"

subsection \<open>\<open>joinPath\<close>\<close>

definition joinPath_part :: "string \<Rightarrow> string" where
  "joinPath_part part =
     (let p = (if startsWith part ''/'' then part else ''/'' @ part)
      in if endsWith p ''/'' then take (length p - 1) p else p)"

definition joinPath :: "string list \<Rightarrow> string" where
  "joinPath parts = foldl (\<lambda>url part. url @ joinPath_part part) [] parts"

subsection \<open>\<open>formatCollection\<close>\<close>

text \<open>
  \<open>data.relativePath.replace(/\.view\.[jt]sx?$/, "")\<close>: the regular expression is
  anchored at the end, so it removes one of four suffixes or nothing.
\<close>

definition view_suffixes :: "string list" where
  "view_suffixes = [''.view.js'', ''.view.jsx'', ''.view.ts'', ''.view.tsx'']"

definition strip_view_suffix :: "string \<Rightarrow> string" where
  "strip_view_suffix p =
     (case filter (endsWith p) view_suffixes of
        [] \<Rightarrow> p
      | s # _ \<Rightarrow> take (length p - length s) p)"

text \<open>
  A template is opaque here and stands for the object \<open>h(...)\<close> returns. What a view
  function does when it is called with the helpers object is the sequence of helper
  uses it makes, and the value it returns: \<open>returns\<close> is \<open>Some t\<close> exactly when the
  result is truthy and has \<open>isTemplate\<close>.
\<close>

type_synonym template = nat

datatype service_arg =
    ServiceFunction nat
  | ServiceObject nat
  | ServiceInvalid

datatype helper_call =
    SetName string
  | SetDescription string
  | CallService string service_arg "nat option"
  | CallAttribute string
  | CallAction string
  | CallRender template

record view_fn =
  calls :: "helper_call list"
  returns :: "template option"

datatype exported = ExportedFunction view_fn | ExportedOther

text \<open>
  \<open>data.exports\<close> by the tests \<open>formatCollection\<close> makes: a non-array object (its own
  enumerable keys in \<open>for ... in\<close> order; \<open>null\<close> is such an object with no keys), a
  function, or anything else (arrays included).
\<close>

datatype exports =
    ExportsObject "(string \<times> exported) list"
  | ExportsFunction view_fn
  | ExportsOther

record view_data =
  relativePath :: string
  exports :: exports

record registered_service =
  service_fn :: service_arg
  service_options :: "nat option"

record helpers =
  helper_name :: string
  helper_description :: "string option"
  helper_services :: "(string \<times> registered_service) list"
  helper_template :: "template option"

record view_entry =
  view_id :: nat
  view_path :: string
  view_name :: string
  view_description :: "string option"
  view_services :: "(string \<times> registered_service) list"
  view_template :: template

record collection =
  collection_path :: string
  collection_views :: "view_entry list"

text \<open>
  \<open>services[name] = ...\<close> on an object kept as the list of its entries in the order in
  which its keys are enumerated: the keys that are array indices (the decimal numeral
  of a number below \<open>2\<^sup>3\<^sup>2 - 1\<close>, without leading zeros) come first, in ascending
  order, and the other keys follow in the order of their creation. An existing key
  keeps its place.
\<close>

definition array_index :: "string \<Rightarrow> nat option" where
  "array_index s =
     (let n = foldl (\<lambda>n c. 10 * n + (of_char c - 48)) 0 s
      in if s \<noteq> [] \<and> list_all is_digit s \<and> (s = ''0'' \<or> 49 \<le> (of_char (hd s) :: nat))
            \<and> n < 2 ^ 32 - 1
         then Some n else None)"

fun insert_index :: "nat \<Rightarrow> string \<Rightarrow> 'v \<Rightarrow> (string \<times> 'v) list \<Rightarrow> (string \<times> 'v) list" where
  "insert_index i k v [] = [(k, v)]"
| "insert_index i k v ((k', v') # rest) =
     (case array_index k' of
        None \<Rightarrow> (k, v) # (k', v') # rest
      | Some j \<Rightarrow>
          (if j < i then (k', v') # insert_index i k v rest
           else (k, v) # (k', v') # rest))"

definition object_set :: "string \<Rightarrow> 'v \<Rightarrow> (string \<times> 'v) list \<Rightarrow> (string \<times> 'v) list" where
  "object_set k v obj =
     (if k \<in> set (map fst obj)
      then map (\<lambda>(k', v'). if k' = k then (k, v) else (k', v')) obj
      else (case array_index k of
              None \<Rightarrow> obj @ [(k, v)]
            | Some i \<Rightarrow> insert_index i k v obj))"

text \<open>One use of the helpers object by the view function.\<close>

fun helper_step :: "helpers \<Rightarrow> helper_call \<Rightarrow> js_error + helpers" where
  "helper_step h (SetName n) = Inr (h\<lparr>helper_name := n\<rparr>)"
| "helper_step h (SetDescription d) = Inr (h\<lparr>helper_description := Some d\<rparr>)"
| "helper_step h (CallService n (ServiceFunction f) config) =
     Inr (h\<lparr>helper_services :=
            object_set n \<lparr>service_fn = ServiceFunction f, service_options = config\<rparr>
              (helper_services h)\<rparr>)"
| "helper_step h (CallService n (ServiceObject ob) config) =
     Inr (h\<lparr>helper_services :=
            object_set n \<lparr>service_fn = ServiceObject ob, service_options = None\<rparr>
              (helper_services h)\<rparr>)"
| "helper_step h (CallService n ServiceInvalid config) =
     Inl (TypeError ''Expected service to be a function or object.'')"
| "helper_step h (CallAttribute n) = Inr h"
| "helper_step h (CallAction n) = Inr h"
| "helper_step h (CallRender t) = Inr (h\<lparr>helper_template := Some t\<rparr>)"

fun helper_steps :: "helpers \<Rightarrow> helper_call list \<Rightarrow> js_error + helpers" where
  "helper_steps h [] = Inr h"
| "helper_steps h (c # cs) =
     (case helper_step h c of
        Inl e \<Rightarrow> Inl e
      | Inr h' \<Rightarrow> helper_steps h' cs)"

text \<open>
  The first part of \<open>formatCollection\<close>: the list \<open>fns\<close> of functions with their names.
\<close>

fun named_exports ::
  "module_scope \<Rightarrow> (string \<times> exported) list \<Rightarrow> js_error + (exported \<times> string) list" where
  "named_exports scope [] = Inr []"
| "named_exports scope ((key, fn) # rest) =
     (case sentenceCase scope key of
        Inl e \<Rightarrow> Inl e
      | Inr name \<Rightarrow>
          (case named_exports scope rest of
             Inl e \<Rightarrow> Inl e
           | Inr fns \<Rightarrow> Inr ((fn, name) # fns)))"

definition collect_fns ::
  "module_scope \<Rightarrow> exports \<Rightarrow> js_error + (exported \<times> string) list" where
  "collect_fns scope ex =
     (case ex of
        ExportsObject entries \<Rightarrow> named_exports scope entries
      | ExportsFunction f \<Rightarrow> Inr [(ExportedFunction f, ''@default'')]
      | ExportsOther \<Rightarrow> Inl (Error ''View files must export a function or object.''))"

text \<open>
  The body of the loop over \<open>fns\<close> for one function: the helpers object is built with
  \<open>name: sentenceCase(name)\<close>, the function runs, and the entry is pushed under the
  next id. The counter \<open>nextId\<close> is module state and is passed through.
\<close>

definition format_view ::
  "module_scope \<Rightarrow> string \<Rightarrow> nat \<Rightarrow> exported \<Rightarrow> string \<Rightarrow> js_error + view_entry" where
  "format_view scope cpath nextId fn name =
     (case sentenceCase scope name of
        Inl e \<Rightarrow> Inl e
      | Inr hname \<Rightarrow>
          (case fn of
             ExportedOther \<Rightarrow> Inl (TypeError ''fn.call is not a function'')
           | ExportedFunction f \<Rightarrow>
               (case helper_steps
                       \<lparr>helper_name = hname, helper_description = None,
                        helper_services = [], helper_template = None\<rparr>
                       (calls f) of
                  Inl e \<Rightarrow> Inl e
                | Inr h \<Rightarrow>
                    (case (case returns f of
                             Some t \<Rightarrow> Some t
                           | None \<Rightarrow> helper_template h) of
                       None \<Rightarrow> Inl (Error ''View must return a template.'')
                     | Some t \<Rightarrow>
                         (case (if helper_name h = ''@default'' then Inr cpath
                                else (case slugCase scope (helper_name h) of
                                        Inl e \<Rightarrow> Inl e
                                      | Inr slug \<Rightarrow> Inr (joinPath [cpath, slug]))) of
                            Inl e \<Rightarrow> Inl e
                          | Inr vpath \<Rightarrow>
                              Inr \<lparr>view_id = nextId, view_path = vpath,
                                   view_name = helper_name h,
                                   view_description = helper_description h,
                                   view_services = helper_services h,
                                   view_template = t\<rparr>)))))"

fun format_views ::
  "module_scope \<Rightarrow> string \<Rightarrow> nat \<Rightarrow> (exported \<times> string) list \<Rightarrow>
   (js_error + view_entry list) \<times> nat" where
  "format_views scope cpath nextId [] = (Inr [], nextId)"
| "format_views scope cpath nextId ((fn, name) # rest) =
     (case format_view scope cpath nextId fn name of
        Inl e \<Rightarrow> (Inl e, nextId)
      | Inr v \<Rightarrow>
          (case format_views scope cpath (Suc nextId) rest of
             (Inl e, n) \<Rightarrow> (Inl e, n)
           | (Inr vs, n) \<Rightarrow> (Inr (v # vs), n)))"

definition formatCollection ::
  "module_scope \<Rightarrow> nat \<Rightarrow> view_data \<Rightarrow> (js_error + collection) \<times> nat" where
  "formatCollection scope nextId data =
     (let cpath = ''/'' @ strip_view_suffix (relativePath data)
      in case collect_fns scope (exports data) of
           Inl e \<Rightarrow> (Inl e, nextId)
         | Inr fns \<Rightarrow>
             (case format_views scope cpath nextId fns of
                (Inl e, n) \<Rightarrow> (Inl e, n)
              | (Inr vs, n) \<Rightarrow>
                  (Inr \<lparr>collection_path = cpath, collection_views = vs\<rparr>, n)))"

section \<open>Component instances: \<open>packages/client/lib/makers/initView.js\<close>\<close>

text \<open>
  \<open>initView\<close> returns an object whose methods close over the four callback arrays, the
  array of active subscriptions, the transition callback, the flag \<open>isConnected\<close> and
  the element the setup function produced. The record \<open>view_component\<close> is that
  closure (the source calls the object \<open>component\<close>).

  A user callback is opaque: running it is recorded in the trace, and it is taken not
  to call back into the component it belongs to. The closure \<open>ctx.observe\<close> pushes onto
  \<open>afterConnectCallbacks\<close> while the component is not connected is \<open>StartObserver\<close>: it
  starts the observer and pushes the subscription.
\<close>

type_synonym node = nat

datatype element = ViewElement | DOMElement | NullElement

datatype callback = UserCallback nat | StartObserver nat

datatype hook = BeforeConnect | AfterConnect | BeforeDisconnect | AfterDisconnect

datatype transition_result = ReturnsPromise | ReturnsOther

datatype view_event =
    Invoke hook callback
  | ElementConnect node "node option"
  | InsertBefore node "node option"
  | ElementDisconnect
  | RemoveChild
  | Unsubscribe nat
  | InvokeTransitionOut
  | Thrown js_error

record view_component =
  beforeConnectCallbacks :: "callback list"
  afterConnectCallbacks :: "callback list"
  beforeDisconnectCallbacks :: "callback list"
  afterDisconnectCallbacks :: "callback list"
  subscriptions :: "nat list"
  transitionOutCallback :: "transition_result option"
  isConnected :: bool
  element :: element
  pendingTransitions :: nat
  trace :: "view_event list"

definition emit :: "view_event \<Rightarrow> view_component \<Rightarrow> view_component" where
  "emit e c = c\<lparr>trace := trace c @ [e]\<rparr>"

fun run_callback :: "hook \<Rightarrow> view_component \<Rightarrow> callback \<Rightarrow> view_component" where
  "run_callback h c (UserCallback n) = emit (Invoke h (UserCallback n)) c"
| "run_callback h c (StartObserver n) =
     emit (Invoke h (StartObserver n)) (c\<lparr>subscriptions := subscriptions c @ [n]\<rparr>)"


text \<open>The observers a list of callbacks starts, in order.\<close>

fun started :: "callback list \<Rightarrow> nat list" where
  "started [] = []"
| "started (UserCallback n # cbs) = started cbs"
| "started (StartObserver n # cbs) = n # started cbs"















section \<open>Stores: the class \<open>Store\<close>\<close>

text \<open>
  Modelled from the spec: the base class \<open>Connectable\<close> is not among the sources. The
  spec gives every connectable a root node, a boolean connected flag, \<open>connect\<close> and
  \<open>disconnect\<close>; \<open>super.connect\<close> is therefore taken to attach the store's comment node
  (the flag \<open>this.isConnected\<close> becomes true) and \<open>super.disconnect\<close> to remove it (the
  flag becomes false).

  The store's own state is its private fields: the two lists of lifecycle callbacks,
  the stop functions of the running subscriptions and \<open>#isConnected\<close>. A callback
  registered by the setup function is opaque; \<open>StartSubscription\<close> is the closure
  \<open>ctx.observe\<close> pushes onto \<open>onConnect\<close> while the store is not connected.
\<close>

datatype store_callback = StoreCallback nat | StartSubscription nat

datatype store_event =
    RunSetup
  | InputsConnect
  | InputsDisconnect
  | NodeInserted
  | NodeRemoved
  | OutletConnect
  | OutletDisconnect
  | Stop nat
  | RunOnConnect store_callback
  | RunOnDisconnect store_callback

record store =
  onConnect :: "store_callback list"
  onDisconnect :: "store_callback list"
  stopCallbacks :: "nat list"
  store_isConnected :: bool
  private_isConnected :: bool
  has_outputs :: bool
  store_trace :: "store_event list"

definition store_emit :: "store_event list \<Rightarrow> store \<Rightarrow> store" where
  "store_emit es s = s\<lparr>store_trace := store_trace s @ es\<rparr>"

text \<open>
  What a setup function does with its context, and what it returns. An error thrown
  by the setup function is caught and handed to the crash collector, which leaves
  \<open>outputs\<close> undefined, so the check of the outputs throws next. The asynchronous
  setup (a returned promise, with the \<open>loading\<close> placeholder) is outside this model.
\<close>

datatype setup_call = CallObserve nat | CallOnConnect nat | CallOnDisconnect nat

datatype setup_result = ReturnsObject | ReturnsNonObject | Throws

record store_setup =
  setup_calls :: "setup_call list"
  setup_result :: setup_result

fun ctx_call :: "store \<Rightarrow> setup_call \<Rightarrow> store" where
  "ctx_call s (CallObserve n) =
     (if store_isConnected s then s\<lparr>stopCallbacks := stopCallbacks s @ [n]\<rparr>
      else s\<lparr>onConnect := onConnect s @ [StartSubscription n]\<rparr>)"
| "ctx_call s (CallOnConnect n) = s\<lparr>onConnect := onConnect s @ [StoreCallback n]\<rparr>"
| "ctx_call s (CallOnDisconnect n) = s\<lparr>onDisconnect := onDisconnect s @ [StoreCallback n]\<rparr>"

definition initialize :: "store_setup \<Rightarrow> store \<Rightarrow> js_error + store" where
  "initialize setup s =
     (let s1 = foldl ctx_call (store_emit [RunSetup] s) (setup_calls setup)
      in case setup_result setup of
           ReturnsObject \<Rightarrow> Inr (s1\<lparr>has_outputs := True\<rparr>)
         | ReturnsNonObject \<Rightarrow>
             Inl (TypeError ''A store setup function must return an object.'')
         | Throws \<Rightarrow>
             Inl (TypeError ''A store setup function must return an object.''))"

definition store_beforeConnect :: "store \<Rightarrow> store" where
  "store_beforeConnect s = store_emit [InputsConnect] s"

fun run_onConnect :: "store \<Rightarrow> store_callback \<Rightarrow> store" where
  "run_onConnect s (StoreCallback n) = store_emit [RunOnConnect (StoreCallback n)] s"
| "run_onConnect s (StartSubscription n) =
     store_emit [RunOnConnect (StartSubscription n)]
       (s\<lparr>stopCallbacks := stopCallbacks s @ [n]\<rparr>)"

definition store_afterConnect :: "store \<Rightarrow> store" where
  "store_afterConnect s =
     foldl run_onConnect (s\<lparr>private_isConnected := True\<rparr>) (onConnect s)"

definition store_beforeDisconnect :: "store \<Rightarrow> store" where
  "store_beforeDisconnect s =
     store_emit [InputsDisconnect]
       ((store_emit (map Stop (stopCallbacks s)) s)\<lparr>stopCallbacks := []\<rparr>)"

definition store_afterDisconnect :: "store \<Rightarrow> store" where
  "store_afterDisconnect s =
     store_emit (map RunOnDisconnect (onDisconnect s)) (s\<lparr>private_isConnected := False\<rparr>)"

definition super_connect :: "store \<Rightarrow> store" where
  "super_connect s = store_emit [NodeInserted] (s\<lparr>store_isConnected := True\<rparr>)"

definition super_disconnect :: "store \<Rightarrow> store" where
  "super_disconnect s =
     (if store_isConnected s
      then store_emit [NodeRemoved] (s\<lparr>store_isConnected := False\<rparr>)
      else s)"

definition store_connect :: "store_setup \<Rightarrow> store \<Rightarrow> js_error + store" where
  "store_connect setup s =
     (let wasConnected = store_isConnected s
      in case (if \<not> wasConnected
               then map_sum id store_beforeConnect (initialize setup s)
               else Inr s) of
           Inl e \<Rightarrow> Inl e
         | Inr s1 \<Rightarrow>
             (let s2 = store_emit [OutletConnect] (super_connect s1)
              in Inr (if \<not> wasConnected then store_afterConnect s2 else s2)))"

text \<open>\<open>Store.disconnect\<close>, statement by statement.\<close>

definition store_disconnect :: "store \<Rightarrow> store" where
  "store_disconnect s =
     (let wasConnected = store_isConnected s;
          s1 = (if \<not> wasConnected then store_beforeDisconnect s else s);
          s2 = super_disconnect (store_emit [OutletDisconnect] s1)
      in if \<not> wasConnected then store_afterDisconnect s2 else s2)"

definition new_store :: store where
  "new_store =
     \<lparr>onConnect = [], onDisconnect = [], stopCallbacks = [],
      store_isConnected = False, private_isConnected = False, has_outputs = False,
      store_trace = []\<rparr>"

section \<open>Keyed lists: the class \<open>MapComponent\<close>\<close>

text \<open>
  Keys are strings or numbers. A numeric key is an integer or \<open>NaN\<close>; fractions and
  the infinities, which behave like the integers under both comparisons, are left
  out. \<open>===\<close> holds of two keys that are the same string or the same integer, and
  \<open>NaN\<close> is not \<open>===\<close> to itself. \<open>Array.prototype.includes\<close> compares with
  SameValueZero, under which \<open>NaN\<close> is found; that is equality of the datatype.

  Component instances are identified by the order of their construction:
  \<open>createItem\<close> returns the next unused identifier, and each call is recorded.
\<close>

datatype key = StringKey string | NumberKey int | NaN

definition strict_equal :: "key \<Rightarrow> key \<Rightarrow> bool" where
  "strict_equal a b = (a = b \<and> a \<noteq> NaN)"

record MapStateItem =
  index :: nat
  key :: key
  component :: nat

text \<open>
  The callback given to \<open>requestAnimationFrame\<close> closes over \<open>removed\<close> and
  \<open>newState\<close>.
\<close>

record map_frame =
  frame_removed :: "(nat \<times> key) list"
  frame_newState :: "MapStateItem list"

text \<open>
  Modelled from the spec: the class \<open>Component\<close> is not among the sources. The calls
  of \<open>connect(parent, after)\<close> and \<open>disconnect()\<close> that the handle makes on item
  components are recorded with their arguments, and each is taken to return. The
  node given as \<open>after\<close> is the handle's own text node \<open>this.root\<close> or the root of an
  item component.
\<close>

datatype node_ref = OwnRoot | RootOf nat

datatype component_call =
    ComponentConnect nat "node option" node_ref
  | ComponentDisconnect nat

text \<open>
  The list handle with what it acts on: its tracked \<open>state\<close>; its field \<open>parent\<close>,
  which is declared and read but assigned nowhere in the class, so that it is
  \<open>undefined\<close> (\<open>None\<close>) in a handle the constructor has built; the animation frames
  it has requested; the calls of \<open>createItem\<close> so far; and the calls it has made on
  item components.
\<close>

record 'a map_component =
  state :: "MapStateItem list"
  this_parent :: "node option"
  frames :: "map_frame list"
  next_component :: nat
  created :: "('a \<times> nat) list"
  component_calls :: "component_call list"

text \<open>\<open>this.state.find((item) => item.key === key)\<close>.\<close>

definition find_tracked :: "key \<Rightarrow> MapStateItem list \<Rightarrow> MapStateItem option" where
  "find_tracked k st = List.find (\<lambda>item. strict_equal (key item) k) st"

text \<open>The first loop of \<open>update\<close> fills \<open>added\<close> and \<open>moved\<close>, the second \<open>removed\<close>.\<close>

fun classify ::
  "MapStateItem list \<Rightarrow> nat \<Rightarrow> key list \<Rightarrow> (nat \<times> key) list \<times> (nat \<times> nat \<times> key) list" where
  "classify st i [] = ([], [])"
| "classify st i (k # ks) =
     (let (added, moved) = classify st (Suc i) ks
      in case find_tracked k st of
           Some tracked \<Rightarrow>
             (if index tracked \<noteq> i then (added, (index tracked, i, k) # moved)
              else (added, moved))
         | None \<Rightarrow> ((i, k) # added, moved))"

definition removed_of :: "MapStateItem list \<Rightarrow> key list \<Rightarrow> (nat \<times> key) list" where
  "removed_of st newKeys =
     map (\<lambda>tracked. (index tracked, key tracked))
       (filter (\<lambda>tracked. key tracked \<notin> set newKeys) st)"

text \<open>
  The third loop builds \<open>newState\<close>: \<open>createItem\<close> for a key that
  \<open>added.some((x) => x.key === key)\<close> finds, the tracked component otherwise. The
  \<open>find\<close> of that branch carries a non-null assertion; when it finds nothing, reading
  \<open>.component\<close> throws.
\<close>

fun build_newState ::
  "(nat \<times> key) list \<Rightarrow> MapStateItem list \<Rightarrow> nat \<Rightarrow> ('a \<times> key) list \<Rightarrow>
   nat \<Rightarrow> ('a \<times> nat) list \<Rightarrow> js_error + (MapStateItem list \<times> nat \<times> ('a \<times> nat) list)" where
  "build_newState added st i [] n cr = Inr ([], n, cr)"
| "build_newState added st i ((x, k) # rest) n cr =
     (if list_ex (\<lambda>a. strict_equal (snd a) k) added then
        (case build_newState added st (Suc i) rest (Suc n) (cr @ [(x, n)]) of
           Inl e \<Rightarrow> Inl e
         | Inr (items, n', cr') \<Rightarrow>
             Inr (\<lparr>index = i, key = k, component = n\<rparr> # items, n', cr'))
      else
        (case find_tracked k st of
           None \<Rightarrow> Inl (TypeError ''Cannot read properties of undefined'')
         | Some tracked \<Rightarrow>
             (case build_newState added st (Suc i) rest n cr of
                Inl e \<Rightarrow> Inl e
              | Inr (items, n', cr') \<Rightarrow>
                  Inr (\<lparr>index = i, key = k, component = component tracked\<rparr> # items,
                       n', cr'))))"

definition update ::
  "('a \<Rightarrow> key) \<Rightarrow> 'a list \<Rightarrow> 'a map_component \<Rightarrow> js_error + 'a map_component" where
  "update getKey list m =
     (let newKeys = map getKey list;
          (added, moved) = classify (state m) 0 newKeys;
          removed = removed_of (state m) newKeys
      in case build_newState added (state m) 0 (zip list newKeys)
                (next_component m) (created m) of
           Inl e \<Rightarrow> Inl e
         | Inr (newState, n, cr) \<Rightarrow>
             Inr (m\<lparr>next_component := n, created := cr,
                    frames := frames m @
                      [\<lparr>frame_removed = removed, frame_newState = newState\<rparr>]\<rparr>))"

text \<open>
  The animation frame callback. The removed entries are looked up in \<open>this.state\<close> as
  it is when the frame runs. Every \<open>connect\<close> is given \<open>this.parent\<close> and the node
  \<open>previous\<close>; \<open>has_root\<close> is the test \<open>item.component.hasOwnProperty("root")\<close>.
\<close>

definition unmount_removed :: "'a map_component \<Rightarrow> nat \<times> key \<Rightarrow> 'a map_component" where
  "unmount_removed m entry =
     (case find_tracked (snd entry) (state m) of
        None \<Rightarrow> m
      | Some item \<Rightarrow>
          m\<lparr>component_calls :=
              component_calls m @ [ComponentDisconnect (component item)]\<rparr>)"

fun remount ::
  "(nat \<Rightarrow> bool) \<Rightarrow> node option \<Rightarrow> node_ref \<Rightarrow> MapStateItem list \<Rightarrow> component_call list" where
  "remount has_root p previous [] = []"
| "remount has_root p previous (item # items) =
     ComponentConnect (component item) p previous
       # remount has_root p
           (if has_root (component item) then RootOf (component item) else previous)
           items"

definition run_frame :: "(nat \<Rightarrow> bool) \<Rightarrow> map_frame \<Rightarrow> 'a map_component \<Rightarrow> 'a map_component" where
  "run_frame has_root f m =
     (let m1 = foldl unmount_removed m (frame_removed f)
      in m1\<lparr>component_calls :=
              component_calls m1
                @ remount has_root (this_parent m1) OwnRoot (frame_newState f),
            state := frame_newState f\<rparr>)"

text \<open>The browser runs the requested frame callbacks in the order of the requests.\<close>

definition animation_frame :: "(nat \<Rightarrow> bool) \<Rightarrow> 'a map_component \<Rightarrow> 'a map_component" where
  "animation_frame has_root m =
     foldl (\<lambda>m' f. run_frame has_root f m') (m\<lparr>frames := []\<rparr>) (frames m)"

text \<open>An update and the animation frame after it.\<close>

definition update_and_frame ::
  "(nat \<Rightarrow> bool) \<Rightarrow> ('a \<Rightarrow> key) \<Rightarrow> 'a list \<Rightarrow> 'a map_component \<Rightarrow>
   js_error + 'a map_component" where
  "update_and_frame has_root getKey list m =
     (case update getKey list m of
        Inl e \<Rightarrow> Inl e
      | Inr m1 \<Rightarrow> Inr (animation_frame has_root m1))"

text \<open>
  The constructor: the state is empty, \<open>parent\<close> is not assigned, and \<open>update\<close> runs
  on the list's initial value.
\<close>

definition MapComponent :: "('a \<Rightarrow> key) \<Rightarrow> 'a list \<Rightarrow> js_error + 'a map_component" where
  "MapComponent getKey initialValue =
     update getKey initialValue
       \<lparr>state = [], this_parent = None, frames = [], next_component = 0, created = [],
        component_calls = []\<rparr>"





text \<open>
  Handles to instantiate the theorems with. The items are objects with the one
  property \<open>id\<close>, which is their key, and every item component has a root. In
  \<open>example_list\<close> the constructor was given the items 1, 2 and 3 and the animation
  frame has run. \<open>example_pending\<close> is that handle after an update with the items 1, 3
  and 4 whose animation frame has not run yet.
\<close>

record item =
  item_id :: key

definition numbered :: "int \<Rightarrow> item" where
  "numbered n = \<lparr>item_id = NumberKey n\<rparr>"

definition has_own_root :: "nat \<Rightarrow> bool" where
  "has_own_root c = True"

definition example_list :: "item map_component" where
  "example_list =
     \<lparr>state =
        [\<lparr>index = 0, key = NumberKey 1, component = 0\<rparr>,
         \<lparr>index = 1, key = NumberKey 2, component = 1\<rparr>,
         \<lparr>index = 2, key = NumberKey 3, component = 2\<rparr>],
      this_parent = None, frames = [], next_component = 3,
      created = [(numbered 1, 0), (numbered 2, 1), (numbered 3, 2)],
      component_calls =
        [ComponentConnect 0 None OwnRoot, ComponentConnect 1 None (RootOf 0),
         ComponentConnect 2 None (RootOf 1)]\<rparr>"


section \<open>Router store: \<open>onRouteChange\<close>\<close>

text \<open>
  The two router stores among the sources have the same \<open>onRouteChange\<close>, statement
  for statement; they differ in the names of what they call (\<open>router.match\<close> or
  \<open>matchRoutes\<close>, \<open>view.init\<close> or \<open>renderMarkupToDOM\<close> with \<open>getRenderHandle\<close>,
  \<open>view.isConnected\<close> or \<open>handle.connected\<close>) and in the later one's checks of the
  redirect's type. The model follows the later one.

  The route matcher and the query string parser are libraries and enter as
  parameters. A handle is identified by the order of its rendering.
\<close>

record route_layer =
  layer_id :: nat
  layer_markup :: nat

record active_layer =
  active_id :: nat
  active_handle :: nat

datatype redirect = RedirectString string | RedirectFunction | RedirectOther

record matched_route =
  matched_pattern :: string
  matched_path :: string
  matched_params :: "(string \<times> string) list"
  matched_redirect :: "redirect option"
  matched_layers :: "route_layer list option"

record location =
  pathname :: string
  search :: string

text \<open>
  The callback given to \<open>requestAnimationFrame\<close> closes over \<open>activeLayer\<close>,
  \<open>parentLayer\<close> and what was rendered.
\<close>

record layer_frame =
  frame_activeLayer :: "active_layer option"
  frame_parentLayer :: "active_layer option"
  frame_rendered :: nat

datatype router_event =
    HistoryReplace string
  | HistoryReplaceSearch
  | HandleDisconnect nat
  | SetChildren "nat option" nat

text \<open>
  The closure of the store's setup function: the four states, the two variables
  \<open>isRouteChange\<close> and \<open>lastQuery\<close> (\<open>undefined\<close> at first), \<open>activeLayers\<close>, and with
  them what the function acts on: the animation frames requested, the handles rendered
  so far with their markup, the handles whose \<open>connected\<close> is true, the child most
  recently given to each parent with \<open>setChildren\<close> (\<open>None\<close> is the app's root view),
  and the calls made.
\<close>

record 'q router =
  pattern :: "string option"
  path :: string
  params :: "(string \<times> string) list"
  query :: 'q
  isRouteChange :: bool
  lastQuery :: "string option"
  activeLayers :: "active_layer list"
  layer_frames :: "layer_frame list"
  next_handle :: nat
  rendered :: "(nat \<times> nat) list"
  connected_handles :: "nat list"
  children_of :: "(nat option \<times> nat) list"
  router_events :: "router_event list"

definition router_emit :: "router_event \<Rightarrow> 'q router \<Rightarrow> 'q router" where
  "router_emit e r = r\<lparr>router_events := router_events r @ [e]\<rparr>"

text \<open>
  Modelled from the spec: \<open>writable\<close> is not among the sources. By the spec a \<open>set\<close>
  that changes the value notifies the observers before it returns; the parsed query
  is a new object each time, so the observer registered with \<open>c.observe($$query, ...)\<close>
  runs on every \<open>$$query.set\<close>.
\<close>

definition query_observer :: "'q router \<Rightarrow> 'q router" where
  "query_observer r =
     (if isRouteChange r then r\<lparr>isRouteChange := False\<rparr>
      else router_emit HistoryReplaceSearch r)"

definition query_set :: "'q \<Rightarrow> 'q router \<Rightarrow> 'q router" where
  "query_set q r = query_observer (r\<lparr>query := q\<rparr>)"

text \<open>
  The redirect target with each \<open>:key\<close> replaced by the parameter's value, one
  \<open>replace\<close> per key of \<open>matched.params\<close>.
\<close>

definition redirect_path :: "(string \<times> string) list \<Rightarrow> string \<Rightarrow> string" where
  "redirect_path ps target =
     foldl (\<lambda>p (k, v). replace_first ('':'' @ k) v p) target ps"

text \<open>
  Reading an array at an index, and its last element: \<open>undefined\<close> out of range.
\<close>

definition nth_opt :: "'a list \<Rightarrow> nat \<Rightarrow> 'a option" where
  "nth_opt xs i = (if i < length xs then Some (xs ! i) else None)"

definition last_opt :: "'a list \<Rightarrow> 'a option" where
  "last_opt xs = (if xs = [] then None else Some (last xs))"

text \<open>
  The body of the loop over \<open>layers\<close> at position \<open>i\<close>. \<open>activeLayer?.id\<close> is
  \<open>undefined\<close> when there is no active layer at the position, which differs from
  every id.
\<close>

definition diff_layer :: "nat \<Rightarrow> route_layer \<Rightarrow> 'q router \<Rightarrow> 'q router" where
  "diff_layer i matchedLayer r =
     (let activeLayer = nth_opt (activeLayers r) i
      in if map_option active_id activeLayer \<noteq> Some (layer_id matchedLayer) then
           (let kept = take i (activeLayers r);
                parentLayer = last_opt kept;
                h = next_handle r
            in r\<lparr>activeLayers :=
                   kept @ [\<lparr>active_id = layer_id matchedLayer, active_handle = h\<rparr>],
                 next_handle := Suc h,
                 rendered := rendered r @ [(h, layer_markup matchedLayer)],
                 layer_frames := layer_frames r @
                   [\<lparr>frame_activeLayer = activeLayer, frame_parentLayer = parentLayer,
                     frame_rendered = h\<rparr>]\<rparr>)
         else r)"

fun diff_layers :: "nat \<Rightarrow> route_layer list \<Rightarrow> 'q router \<Rightarrow> 'q router" where
  "diff_layers i [] r = r"
| "diff_layers i (matchedLayer # rest) r =
     diff_layers (Suc i) rest (diff_layer i matchedLayer r)"

definition onRouteChange ::
  "(string \<Rightarrow> matched_route option) \<Rightarrow> (string \<Rightarrow> 'q) \<Rightarrow> location \<Rightarrow> 'q router \<Rightarrow>
   js_error + 'q router" where
  "onRouteChange matchRoutes parseQueryParams loc r =
     (let r1 = (if Some (search loc) \<noteq> lastQuery r
                then query_set (parseQueryParams (search loc))
                       (r\<lparr>lastQuery := Some (search loc), isRouteChange := True\<rparr>)
                else r)
      in case matchRoutes (pathname loc) of
           None \<Rightarrow>
             Inr (r1\<lparr>pattern := None, path := pathname loc,
                     params := [(''wildcard'', pathname loc)]\<rparr>)
         | Some matched \<Rightarrow>
             (case matched_redirect matched of
                Some (RedirectString target) \<Rightarrow>
                  Inr (router_emit
                         (HistoryReplace (redirect_path (matched_params matched) target)) r1)
              | Some RedirectFunction \<Rightarrow>
                  Inl (Error ''Redirect functions aren't implemented yet.'')
              | Some RedirectOther \<Rightarrow>
                  Inl (TypeError ''Redirect must either be a path string or a function.'')
              | None \<Rightarrow>
                  (let r2 = r1\<lparr>path := matched_path matched,
                                params := matched_params matched\<rparr>
                   in if Some (matched_pattern matched) \<noteq> pattern r2 then
                        (case matched_layers matched of
                           None \<Rightarrow> Inl (TypeError ''Cannot read properties of undefined'')
                         | Some layers \<Rightarrow>
                             Inr (diff_layers 0 layers
                                    (r2\<lparr>pattern := Some (matched_pattern matched)\<rparr>)))
                      else Inr r2)))"

text \<open>
  One requested animation frame callback runs. Modelled from the spec: the handle
  classes are not among the sources; \<open>disconnect\<close> makes a handle's \<open>connected\<close> false,
  and \<open>setChildren\<close> gives the parent its new child.
\<close>

fun set_child :: "nat option \<Rightarrow> nat \<Rightarrow> (nat option \<times> nat) list \<Rightarrow> (nat option \<times> nat) list" where
  "set_child p h [] = [(p, h)]"
| "set_child p h ((p', h') # rest) =
     (if p = p' then (p, h) # rest else (p', h') # set_child p h rest)"

definition run_layer_frame :: "layer_frame \<Rightarrow> 'q router \<Rightarrow> 'q router" where
  "run_layer_frame f r =
     (let r1 = (case frame_activeLayer f of
                  None \<Rightarrow> r
                | Some a \<Rightarrow>
                    (if active_handle a \<in> set (connected_handles r)
                     then router_emit (HandleDisconnect (active_handle a))
                            (r\<lparr>connected_handles := removeAll (active_handle a) (connected_handles r)\<rparr>)
                     else r));
          parent = map_option active_handle (frame_parentLayer f)
      in router_emit (SetChildren parent (frame_rendered f))
           (r1\<lparr>children_of := set_child parent (frame_rendered f) (children_of r1)\<rparr>))"

definition run_layer_frames :: "'q router \<Rightarrow> 'q router" where
  "run_layer_frames r =
     foldl (\<lambda>r' f. run_layer_frame f r') (r\<lparr>layer_frames := []\<rparr>) (layer_frames r)"

text \<open>
  A router to instantiate the theorems with: three layers are active, with ids 1, 2
  and 3 and handles 10, 11 and 12, all connected. Its routes: \<open>/a/b/d\<close> has the
  layers 1, 2 and 4; nothing else matches.
\<close>

definition example_router :: "string router" where
  "example_router =
     \<lparr>pattern = Some ''/a/b/c'', path = ''/a/b/c'', params = [], query = [],
      isRouteChange = False, lastQuery = None,
      activeLayers =
        [\<lparr>active_id = 1, active_handle = 10\<rparr>, \<lparr>active_id = 2, active_handle = 11\<rparr>,
         \<lparr>active_id = 3, active_handle = 12\<rparr>],
      layer_frames = [], next_handle = 13, rendered = [],
      connected_handles = [10, 11, 12],
      children_of = [(None, 10), (Some 10, 11), (Some 11, 12)], router_events = []\<rparr>"

definition example_routes :: "string \<Rightarrow> matched_route option" where
  "example_routes p =
     (if p = ''/a/b/d'' then
        Some \<lparr>matched_pattern = ''/a/b/d'', matched_path = ''/a/b/d'', matched_params = [],
              matched_redirect = None,
              matched_layers =
                Some [\<lparr>layer_id = 1, layer_markup = 100\<rparr>, \<lparr>layer_id = 2, layer_markup = 101\<rparr>,
                      \<lparr>layer_id = 4, layer_markup = 103\<rparr>]\<rparr>
      else None)"

text \<open>
  The layer diffing in the spec's words: the position of the first mismatch is the
  number of leading positions at which the active and the matched layer have the same
  id.
\<close>

fun first_mismatch :: "nat list \<Rightarrow> nat list \<Rightarrow> nat" where
  "first_mismatch (a # as) (b # bs) = (if a = b then Suc (first_mismatch as bs) else 0)"
| "first_mismatch _ _ = 0"

text \<open>
  The matched layers from the first mismatch on are freshly initialized: each gets the
  next handle, and each but the first is attached to the one before it.
\<close>

fun fresh_layers :: "nat \<Rightarrow> route_layer list \<Rightarrow> active_layer list" where
  "fresh_layers n [] = []"
| "fresh_layers n (l # ls) =
     \<lparr>active_id = layer_id l, active_handle = n\<rparr> # fresh_layers (Suc n) ls"

fun fresh_frames :: "active_layer option \<Rightarrow> nat \<Rightarrow> route_layer list \<Rightarrow> layer_frame list" where
  "fresh_frames parent n [] = []"
| "fresh_frames parent n (l # ls) =
     \<lparr>frame_activeLayer = None, frame_parentLayer = parent, frame_rendered = n\<rparr>
       # fresh_frames (Some \<lparr>active_id = layer_id l, active_handle = n\<rparr>) (Suc n) ls"

fun fresh_rendered :: "nat \<Rightarrow> route_layer list \<Rightarrow> (nat \<times> nat) list" where
  "fresh_rendered n [] = []"
| "fresh_rendered n (l # ls) = (n, layer_markup l) # fresh_rendered (Suc n) ls"

text \<open>
  The calls of \<open>setChildren\<close> that attach \<open>count\<close> fresh handles, the first to
  \<open>parent\<close> and every other to the handle before it.
\<close>

fun attach_events :: "nat option \<Rightarrow> nat \<Rightarrow> nat \<Rightarrow> router_event list" where
  "attach_events parent n 0 = []"
| "attach_events parent n (Suc count) =
     SetChildren parent n # attach_events (Some n) (Suc n) count"

section \<open>Markup: \<open>toMarkup\<close> and \<open>makeMarkup\<close>\<close>

text \<open>
  A renderable by the tests \<open>toMarkup\<close> makes of it. Modelled from the spec: the
  predicates \<open>isString\<close>, \<open>isNumber\<close>, \<open>isArray\<close> and \<open>Readable.isReadable\<close> are not
  among the sources; each is taken to hold of the values of its type, and a number's
  value, which \<open>toMarkup\<close> never inspects, is an integer here. \<open>ROther\<close> is any other
  value: \<open>true\<close> is \<open>RBoolean True\<close>, and an object that is neither markup nor readable,
  a function or a symbol is \<open>ROther\<close>.
\<close>

datatype text_value = TextString string | TextNumber int | TextReadable nat

datatype markup_type = Tag string | ViewFunction nat

datatype attributes = TextAttributes text_value | OtherAttributes nat | NoAttributes

datatype markup = Markup markup_type attributes "markup list"

datatype renderable =
    RNull
  | RUndefined
  | RBoolean bool
  | RString string
  | RNumber int
  | RReadable nat
  | RMarkup markup
  | RArray "renderable list"
  | ROther nat

text \<open>\<open>.flat(Infinity)\<close>.\<close>

fun flat :: "renderable list \<Rightarrow> renderable list" where
  "flat [] = []"
| "flat (RArray xs # rest) = flat xs @ flat rest"
| "flat (x # rest) = x # flat rest"

text \<open>The predicate of the \<open>filter\<close>.\<close>

definition kept :: "renderable \<Rightarrow> bool" where
  "kept x = (x \<noteq> RNull \<and> x \<noteq> RUndefined \<and> x \<noteq> RBoolean False)"

text \<open>
  \<open>makeMarkup("$text", { value: x })\<close>: there are no children, and \<open>toMarkup\<close> of no
  children is the empty list.
\<close>

definition text_markup :: "text_value \<Rightarrow> markup" where
  "text_markup v = Markup (Tag ''$text'') (TextAttributes v) []"

text \<open>The function given to \<open>map\<close>.\<close>

fun to_markup_item :: "renderable \<Rightarrow> js_error + markup" where
  "to_markup_item (RMarkup m) = Inr m"
| "to_markup_item (RString s) = Inr (text_markup (TextString s))"
| "to_markup_item (RNumber n) = Inr (text_markup (TextNumber n))"
| "to_markup_item (RReadable r) = Inr (text_markup (TextReadable r))"
| "to_markup_item x = Inl (TypeError ''Unexpected child type'')"

text \<open>\<open>Array.prototype.map\<close> with a function that can throw: the first throw ends it.\<close>

fun map_throwing :: "('a \<Rightarrow> js_error + 'b) \<Rightarrow> 'a list \<Rightarrow> js_error + 'b list" where
  "map_throwing f [] = Inr []"
| "map_throwing f (x # xs) =
     (case f x of
        Inl e \<Rightarrow> Inl e
      | Inr y \<Rightarrow>
          (case map_throwing f xs of
             Inl e \<Rightarrow> Inl e
           | Inr ys \<Rightarrow> Inr (y # ys)))"

definition toMarkup :: "renderable \<Rightarrow> js_error + markup list" where
  "toMarkup renderables =
     map_throwing to_markup_item
       (filter kept (flat (case renderables of RArray xs \<Rightarrow> xs | x \<Rightarrow> [x])))"

definition makeMarkup ::
  "markup_type \<Rightarrow> attributes \<Rightarrow> renderable list \<Rightarrow> js_error + markup" where
  "makeMarkup type attrs children =
     (case toMarkup (RArray children) of
        Inl e \<Rightarrow> Inl e
      | Inr ms \<Rightarrow> Inr (Markup type attrs ms))"

text \<open>
  The claim about \<open>toMarkup\<close> in the spec's words: what becomes of an entry that is
  not dropped. A markup node is returned as it is, a string, a number or a readable
  is wrapped into a \<open>$text\<close> node, and nothing else is accepted.
\<close>

fun spec_child :: "renderable \<Rightarrow> markup option" where
  "spec_child (RMarkup m) = Some m"
| "spec_child (RString s) = Some (Markup (Tag ''$text'') (TextAttributes (TextString s)) [])"
| "spec_child (RNumber n) = Some (Markup (Tag ''$text'') (TextAttributes (TextNumber n)) [])"
| "spec_child (RReadable r) =
     Some (Markup (Tag ''$text'') (TextAttributes (TextReadable r)) [])"
| "spec_child x = None"

definition spec_dropped :: "renderable \<Rightarrow> bool" where
  "spec_dropped x = (x = RNull \<or> x = RUndefined \<or> x = RBoolean False)"

text \<open>The leaves of a nested list, left to right, at any depth.\<close>

fun leaves :: "renderable \<Rightarrow> renderable list" where
  "leaves (RArray xs) = concat (map leaves xs)"
| "leaves x = [x]"

fun is_array :: "renderable \<Rightarrow> bool" where
  "is_array (RArray xs) = True"
| "is_array x = False"

section \<open>Spring animation: \<open>spring\<close> and \<open>makeSpringSolver\<close>\<close>

text \<open>
  JavaScript numbers are IEEE 754 doubles. The model does not fix them: a number is a
  value of a type \<open>'n\<close>, and the arithmetic the source uses is a record of operations
  on \<open>'n\<close>, given to every function. What is proved holds for every such record, the
  arithmetic of doubles included.

  \<open>num_lit m e\<close> is the number written as the decimal literal \<open>m\<close> times ten to the
  power \<open>-e\<close>; \<open>num_truthy\<close> is the truthiness of a number (false for zero and
  \<open>NaN\<close>); \<open>math_max\<close> and \<open>math_min\<close> are \<open>Math.max\<close> and \<open>Math.min\<close> of the spread
  samples.
\<close>

record 'n arith =
  num_lit :: "int \<Rightarrow> nat \<Rightarrow> 'n"
  num_add :: "'n \<Rightarrow> 'n \<Rightarrow> 'n"
  num_sub :: "'n \<Rightarrow> 'n \<Rightarrow> 'n"
  num_mul :: "'n \<Rightarrow> 'n \<Rightarrow> 'n"
  num_div :: "'n \<Rightarrow> 'n \<Rightarrow> 'n"
  num_neg :: "'n \<Rightarrow> 'n"
  num_less :: "'n \<Rightarrow> 'n \<Rightarrow> bool"
  num_truthy :: "'n \<Rightarrow> bool"
  math_sqrt :: "'n \<Rightarrow> 'n"
  math_cos :: "'n \<Rightarrow> 'n"
  math_sin :: "'n \<Rightarrow> 'n"
  math_exp :: "'n \<Rightarrow> 'n"
  math_max :: "'n list \<Rightarrow> 'n"
  math_min :: "'n list \<Rightarrow> 'n"

text \<open>
  \<open>SpringOptions\<close>: every field is optional. A field that holds a readable is
  unwrapped where it is used; the model takes the number it holds. The sampling
  window counts frames and is a natural number.
\<close>

record 'n SpringOptions =
  mass :: "'n option"
  stiffness :: "'n option"
  damping :: "'n option"
  velocity :: "'n option"
  endAmplitude :: "'n option"
  endWindow :: "nat option"

definition no_options :: "'n SpringOptions" where
  "no_options =
     \<lparr>mass = None, stiffness = None, damping = None, velocity = None,
      endAmplitude = None, endWindow = None\<rparr>"

text \<open>\<open>a ?? b\<close>.\<close>

definition nullish :: "'a option \<Rightarrow> 'a \<Rightarrow> 'a" where
  "nullish a b = (case a of None \<Rightarrow> b | Some x \<Rightarrow> x)"

subsection \<open>\<open>makeSpringSolver\<close>\<close>

record 'n solver_options =
  solver_mass :: 'n
  solver_stiffness :: 'n
  solver_damping :: 'n
  solver_velocity :: 'n

definition makeSpringSolver :: "'n arith \<Rightarrow> 'n solver_options \<Rightarrow> 'n \<Rightarrow> 'n" where
  "makeSpringSolver ar options t =
     (let m = solver_mass options;
          k = solver_stiffness options;
          d = solver_damping options;
          initialVelocity = solver_velocity options;
          dampingRatio =
            num_div ar d (num_mul ar (num_lit ar 2 0) (math_sqrt ar (num_mul ar k m)));
          speed = math_sqrt ar (num_div ar k m);
          position =
            (if num_less ar dampingRatio (num_lit ar 1 0) then
               (let dampedSpeed =
                      num_mul ar speed
                        (math_sqrt ar
                           (num_sub ar (num_lit ar 1 0)
                              (num_mul ar dampingRatio dampingRatio)));
                    B = num_div ar
                          (num_add ar (num_mul ar dampingRatio speed)
                             (num_neg ar initialVelocity))
                          dampedSpeed
                in num_mul ar
                     (num_add ar (math_cos ar (num_mul ar dampedSpeed t))
                        (num_mul ar B (math_sin ar (num_mul ar dampedSpeed t))))
                     (math_exp ar
                        (num_mul ar (num_mul ar (num_neg ar t) speed) dampingRatio)))
             else
               (let B = num_add ar speed (num_neg ar initialVelocity)
                in num_mul ar
                     (num_add ar (num_lit ar 1 0) (num_mul ar B t))
                     (math_exp ar (num_mul ar (num_neg ar t) speed))))
      in num_sub ar (num_lit ar 1 0) position)"

subsection \<open>\<open>makeAmplitudeMeasurer\<close>\<close>

text \<open>
  \<open>sample\<close> pushes and then shifts while there are more samples than the resolution;
  the getter \<open>value\<close> is \<open>null\<close> while there are fewer.
\<close>

definition sample :: "nat \<Rightarrow> 'n \<Rightarrow> 'n list \<Rightarrow> 'n list" where
  "sample resolution v samples =
     (let pushed = samples @ [v] in drop (length pushed - resolution) pushed)"

definition amplitude_value :: "'n arith \<Rightarrow> nat \<Rightarrow> 'n list \<Rightarrow> 'n option" where
  "amplitude_value ar resolution samples =
     (if length samples < resolution then None
      else Some (num_sub ar (math_max ar samples) (math_min ar samples)))"

subsection \<open>\<open>spring\<close>\<close>

text \<open>
  What the callback \<open>step\<close> of one \<open>animateTo\<close> call closes over: the id, the samples
  of the amplitude measurer with its resolution, the solver's options, the start time
  and value, the end value and the threshold.
\<close>

record 'n animation =
  animation_id :: nat
  samples :: "'n list"
  resolution :: nat
  solver :: "'n solver_options"
  startTime :: 'n
  startValue :: 'n
  endValue :: 'n
  threshold :: 'n

text \<open>
  The closure of \<open>spring\<close>: the options with their defaults filled in, the current
  value, \<open>nextId\<close> and \<open>currentAnimationId\<close>; with them the \<open>step\<close> callbacks given to
  \<open>requestAnimationFrame\<close> and not yet run, and the ids of the animations whose promise
  has been resolved. Modelled from the spec: \<open>writable\<close> is not among the sources;
  after \<open>$$currentValue.set(x)\<close>, \<open>get()\<close> returns \<open>x\<close>.
\<close>

record 'n spring_state =
  spring_mass :: 'n
  spring_stiffness :: 'n
  spring_damping :: 'n
  spring_velocity :: 'n
  spring_endAmplitude :: 'n
  spring_endWindow :: nat
  currentValue :: 'n
  nextId :: nat
  currentAnimationId :: "nat option"
  requested :: "'n animation list"
  resolved :: "nat list"

definition spring :: "'n arith \<Rightarrow> 'n \<Rightarrow> 'n SpringOptions \<Rightarrow> 'n spring_state" where
  "spring ar initialValue options =
     \<lparr>spring_mass = nullish (mass options) (num_lit ar 2 0),
      spring_stiffness = nullish (stiffness options) (num_lit ar 1200 0),
      spring_damping = nullish (damping options) (num_lit ar 160 0),
      spring_velocity = nullish (velocity options) (num_lit ar 5 0),
      spring_endAmplitude = nullish (endAmplitude options) (num_lit ar 1 3),
      spring_endWindow = nullish (endWindow options) 20,
      currentValue = initialValue, nextId = 0, currentAnimationId = None,
      requested = [], resolved = []\<rparr>"

definition spring_get :: "'n spring_state \<Rightarrow> 'n" where
  "spring_get s = currentValue s"

definition snapTo :: "'n \<Rightarrow> 'n spring_state \<Rightarrow> 'n spring_state" where
  "snapTo newValue s = s\<lparr>currentAnimationId := None, currentValue := newValue\<rparr>"

text \<open>
  \<open>animateTo\<close> up to the point where it returns its promise. \<open>reduced\<close> is
  \<open>mediaQuery.matches\<close> and \<open>now\<close> is \<open>Date.now()\<close>.
\<close>

definition animateTo ::
  "bool \<Rightarrow> 'n \<Rightarrow> 'n \<Rightarrow> 'n SpringOptions \<Rightarrow> 'n spring_state \<Rightarrow> 'n spring_state" where
  "animateTo reduced now end options s =
     (if reduced then snapTo end s
      else
        (let a = \<lparr>animation_id = nextId s, samples = [],
                  resolution = nullish (endWindow options) (spring_endWindow s),
                  solver =
                    \<lparr>solver_mass = nullish (mass options) (spring_mass s),
                     solver_stiffness = nullish (stiffness options) (spring_stiffness s),
                     solver_damping = nullish (damping options) (spring_damping s),
                     solver_velocity = nullish (velocity options) (spring_velocity s)\<rparr>,
                  startTime = now, startValue = currentValue s, endValue = end,
                  threshold = nullish (endAmplitude options) (spring_endAmplitude s)\<rparr>
         in s\<lparr>nextId := Suc (nextId s), currentAnimationId := Some (nextId s),
               requested := requested s @ [a]\<rparr>))"

text \<open>The two setters of the returned object.\<close>

definition spring_set :: "bool \<Rightarrow> 'n \<Rightarrow> 'n \<Rightarrow> 'n spring_state \<Rightarrow> 'n spring_state" where
  "spring_set reduced now newValue s = animateTo reduced now newValue no_options s"

definition spring_update ::
  "bool \<Rightarrow> 'n \<Rightarrow> ('n \<Rightarrow> 'n) \<Rightarrow> 'n spring_state \<Rightarrow> 'n spring_state" where
  "spring_update reduced now callback s =
     animateTo reduced now (callback (currentValue s)) no_options s"

text \<open>
  The value \<open>step\<close> writes for a proportion, and whether the measured amplitude ends
  the animation: \<open>amplitude.value && amplitude.value < _endAmplitude\<close>.
\<close>

definition frame_value :: "'n arith \<Rightarrow> 'n \<Rightarrow> 'n \<Rightarrow> 'n \<Rightarrow> 'n" where
  "frame_value ar start end proportion =
     num_add ar start (num_mul ar (num_sub ar end start) proportion)"

definition below_threshold :: "'n arith \<Rightarrow> 'n animation \<Rightarrow> bool" where
  "below_threshold ar a =
     (case amplitude_value ar (resolution a) (samples a) of
        None \<Rightarrow> False
      | Some v \<Rightarrow> num_truthy ar v \<and> num_less ar v (threshold a))"

text \<open>
  One run of \<open>step\<close> for the animation \<open>a\<close> at the time \<open>now\<close>. A step that is not the
  current animation resolves its promise and requests no further frame; any other
  requests the next frame, also the one that ends the animation. \<open>proportion_at\<close> is
  \<open>solve(elapsedTime / 1000)\<close>, and \<open>sampled\<close> is the closure after
  \<open>amplitude.sample(proportion)\<close>.
\<close>

definition proportion_at :: "'n arith \<Rightarrow> 'n \<Rightarrow> 'n animation \<Rightarrow> 'n" where
  "proportion_at ar now a =
     (let elapsedTime = num_sub ar now (startTime a)
      in makeSpringSolver ar (solver a) (num_div ar elapsedTime (num_lit ar 1000 0)))"

definition sampled :: "'n arith \<Rightarrow> 'n \<Rightarrow> 'n animation \<Rightarrow> 'n animation" where
  "sampled ar now a =
     a\<lparr>samples := sample (resolution a) (proportion_at ar now a) (samples a)\<rparr>"

definition step :: "'n arith \<Rightarrow> 'n \<Rightarrow> 'n animation \<Rightarrow> 'n spring_state \<Rightarrow> 'n spring_state" where
  "step ar now a s =
     (if currentAnimationId s \<noteq> Some (animation_id a)
      then s\<lparr>resolved := resolved s @ [animation_id a]\<rparr>
      else
        (let proportion = proportion_at ar now a;
             s1 = s\<lparr>currentValue := frame_value ar (startValue a) (endValue a) proportion\<rparr>;
             a1 = sampled ar now a;
             s2 = (if below_threshold ar a1
                   then s1\<lparr>currentAnimationId := None, currentValue := endValue a\<rparr>
                   else s1)
         in s2\<lparr>requested := requested s2 @ [a1]\<rparr>))"

text \<open>An animation frame: the callbacks requested before it run in order.\<close>

definition spring_frame :: "'n arith \<Rightarrow> 'n \<Rightarrow> 'n spring_state \<Rightarrow> 'n spring_state" where
  "spring_frame ar now s =
     foldl (\<lambda>s' a. step ar now a s') (s\<lparr>requested := []\<rparr>) (requested s)"

text \<open>
  The solver in the spec's words: the damping ratio, the natural speed, and the
  position of the damped harmonic oscillator in its two cases.
\<close>

definition spec_zeta :: "'n arith \<Rightarrow> 'n \<Rightarrow> 'n \<Rightarrow> 'n \<Rightarrow> 'n" where
  "spec_zeta ar m k d =
     num_div ar d (num_mul ar (num_lit ar 2 0) (math_sqrt ar (num_mul ar k m)))"

definition spec_omega :: "'n arith \<Rightarrow> 'n \<Rightarrow> 'n \<Rightarrow> 'n" where
  "spec_omega ar m k = math_sqrt ar (num_div ar k m)"

definition spec_position :: "'n arith \<Rightarrow> 'n \<Rightarrow> 'n \<Rightarrow> 'n \<Rightarrow> 'n \<Rightarrow> 'n \<Rightarrow> 'n" where
  "spec_position ar m k d v0 t =
     (let zeta = spec_zeta ar m k d; omega = spec_omega ar m k
      in if num_less ar zeta (num_lit ar 1 0) then
           (let omega_d =
                  num_mul ar omega
                    (math_sqrt ar (num_sub ar (num_lit ar 1 0) (num_mul ar zeta zeta)));
                B = num_div ar (num_sub ar (num_mul ar zeta omega) v0) omega_d
            in num_mul ar
                 (num_add ar (math_cos ar (num_mul ar omega_d t))
                    (num_mul ar B (math_sin ar (num_mul ar omega_d t))))
                 (math_exp ar (num_mul ar (num_mul ar (num_neg ar t) omega) zeta)))
         else
           (let B = num_sub ar omega v0
            in num_mul ar (num_add ar (num_lit ar 1 0) (num_mul ar B t))
                 (math_exp ar (num_mul ar (num_neg ar t) omega))))"

text \<open>
  One arithmetic to instantiate the theorems with: that of the real numbers. With it,
  a spring at rest at 3, and the \<open>step\<close> closure of an animation from 3 to 7 that has
  taken one sample so far.
\<close>

definition real_arith :: "real arith" where
  "real_arith =
     \<lparr>num_lit = (\<lambda>m e. of_int m / 10 ^ e),
      num_add = (+), num_sub = (-), num_mul = (*), num_div = (/),
      num_neg = uminus, num_less = (<), num_truthy = (\<lambda>x. x \<noteq> 0),
      math_sqrt = sqrt, math_cos = cos, math_sin = sin, math_exp = exp,
      math_max = (\<lambda>xs. Max (set xs)), math_min = (\<lambda>xs. Min (set xs))\<rparr>"

definition example_spring :: "real spring_state" where
  "example_spring = spring real_arith 3 no_options"

definition example_animation :: "real animation" where
  "example_animation =
     \<lparr>animation_id = 0, samples = [1 / 2000], resolution = 2,
      solver = \<lparr>solver_mass = 1, solver_stiffness = 1, solver_damping = 2,
                solver_velocity = 0\<rparr>,
      startTime = 50, startValue = 3, endValue = 7, threshold = 1 / 1000\<rparr>"

section \<open>Theorems\<close>

subsection \<open>Component instances: connecting and disconnecting\<close>

text \<open>
  Running a list of callbacks appends one \<open>Invoke\<close> per callback, in order, and starts
  the observers among them; nothing else of the closure changes.
\<close>

lemma trace_run_callback:
  "trace (run_callback h c cb) = trace c @ [Invoke h cb]"
  by (cases cb) (simp_all add: emit_def)

lemma subscriptions_run_callback:
  "subscriptions (run_callback h c cb) = subscriptions c @ started [cb]"
  by (cases cb) (simp_all add: emit_def)

lemma started_append: "started (xs @ ys) = started xs @ started ys"
  by (induction xs rule: started.induct) simp_all

lemma run_callback_frame:
  "isConnected (run_callback h c cb) = isConnected c"
  "element (run_callback h c cb) = element c"
  "beforeConnectCallbacks (run_callback h c cb) = beforeConnectCallbacks c"
  "afterConnectCallbacks (run_callback h c cb) = afterConnectCallbacks c"
  "beforeDisconnectCallbacks (run_callback h c cb) = beforeDisconnectCallbacks c"
  "afterDisconnectCallbacks (run_callback h c cb) = afterDisconnectCallbacks c"
  "transitionOutCallback (run_callback h c cb) = transitionOutCallback c"
  "pendingTransitions (run_callback h c cb) = pendingTransitions c"
  by (cases cb; simp add: emit_def)+













subsection \<open>Stores: \<open>disconnect\<close>\<close>

text \<open>
  Both hooks of \<open>Store.disconnect\<close> stand under \<open>if (!wasConnected)\<close>, the guard of
  \<open>connect\<close>: on a connected store neither runs.
\<close>

lemma store_disconnect_connected:
  "store_isConnected s \<Longrightarrow>
   store_disconnect s =
     s\<lparr>store_isConnected := False,
       store_trace := store_trace s @ [OutletDisconnect, NodeRemoved]\<rparr>"
  by (simp add: store_disconnect_def super_disconnect_def store_emit_def)

lemma store_disconnect_not_connected:
  "\<not> store_isConnected s \<Longrightarrow>
   store_disconnect s =
     s\<lparr>stopCallbacks := [], private_isConnected := False,
       store_trace := store_trace s @ map Stop (stopCallbacks s)
         @ [InputsDisconnect, OutletDisconnect] @ map RunOnDisconnect (onDisconnect s)\<rparr>"
  by (simp add: store_disconnect_def super_disconnect_def store_emit_def
        store_beforeDisconnect_def store_afterDisconnect_def)

text \<open>
  C4. The claim: \<open>disconnect()\<close> on a connected store stops the subscriptions before
  the content is removed and runs the \<open>onDisconnect\<close> callbacks after, and does
  neither on a store that is not connected. The code does the opposite. A store whose
  setup function observes one readable and registers one \<open>onDisconnect\<close> callback is
  connected; its \<open>disconnect()\<close> only disconnects the outlet and removes the node: the
  subscription is still running (\<open>stopCallbacks\<close> is unchanged) and the callback has
  not run. On a store that is not connected, \<open>disconnect()\<close> stops the subscriptions
  and runs the callback.
\<close>

theorem store_disconnect_skips_hooks_when_connected:
  "store_connect
     \<lparr>setup_calls = [CallObserve 1, CallOnDisconnect 2], setup_result = ReturnsObject\<rparr>
     new_store =
   Inr \<lparr>onConnect = [StartSubscription 1], onDisconnect = [StoreCallback 2],
        stopCallbacks = [1], store_isConnected = True, private_isConnected = True,
        has_outputs = True,
        store_trace = [RunSetup, InputsConnect, NodeInserted, OutletConnect,
                       RunOnConnect (StartSubscription 1)]\<rparr>
   \<and> store_disconnect
       \<lparr>onConnect = [StartSubscription 1], onDisconnect = [StoreCallback 2],
        stopCallbacks = [1], store_isConnected = True, private_isConnected = True,
        has_outputs = True,
        store_trace = [RunSetup, InputsConnect, NodeInserted, OutletConnect,
                       RunOnConnect (StartSubscription 1)]\<rparr> =
     \<lparr>onConnect = [StartSubscription 1], onDisconnect = [StoreCallback 2],
      stopCallbacks = [1], store_isConnected = False, private_isConnected = True,
      has_outputs = True,
      store_trace = [RunSetup, InputsConnect, NodeInserted, OutletConnect,
                     RunOnConnect (StartSubscription 1), OutletDisconnect, NodeRemoved]\<rparr>
   \<and> store_disconnect
       \<lparr>onConnect = [StartSubscription 1], onDisconnect = [StoreCallback 2],
        stopCallbacks = [1], store_isConnected = False, private_isConnected = True,
        has_outputs = True, store_trace = []\<rparr> =
     \<lparr>onConnect = [StartSubscription 1], onDisconnect = [StoreCallback 2],
      stopCallbacks = [], store_isConnected = False, private_isConnected = False,
      has_outputs = True,
      store_trace = [Stop 1, InputsDisconnect, OutletDisconnect,
                     RunOnDisconnect (StoreCallback 2)]\<rparr>"
  by code_simp

subsection \<open>Keyed lists: one update and its animation frame\<close>

text \<open>
  The handle \<open>example_list\<close> is what the constructor and the first animation frame
  leave for the items 1, 2 and 3.
\<close>

lemma example_list_constructed:
  "update_and_frame has_own_root item_id [numbered 1, numbered 2, numbered 3]
     \<lparr>state = [], this_parent = None, frames = [], next_component = 0, created = [],
      component_calls = []\<rparr> = Inr example_list"
  "MapComponent item_id [numbered 1, numbered 2, numbered 3] =
     update item_id [numbered 1, numbered 2, numbered 3]
       \<lparr>state = [], this_parent = None, frames = [], next_component = 0, created = [],
        component_calls = []\<rparr>"
  by (code_simp, simp add: MapComponent_def)










lemma find_tracked_NaN: "find_tracked NaN st = None"
  by (simp add: find_tracked_def strict_equal_def find_None_iff)

lemma update_NaN:
  "getKey x = NaN \<Longrightarrow>
   update getKey [x] m = Inl (TypeError ''Cannot read properties of undefined'')"
  by (simp add: update_def find_tracked_NaN strict_equal_def Let_def)












subsection \<open>Markup: the children of a markup node\<close>

text \<open>
  \<open>flat\<close> yields the leaves of the nested list, and the function given to \<open>map\<close> is
  the spec's table of accepted entries.
\<close>

lemma flat_leaves: "flat xs = concat (map leaves xs)"
  by (induction xs rule: flat.induct) simp_all

lemma flat_argument:
  "flat (case r of RArray xs \<Rightarrow> xs | x \<Rightarrow> [x]) = leaves r"
  by (cases r) (simp_all add: flat_leaves)

lemma kept_not_dropped: "kept = (\<lambda>x. \<not> spec_dropped x)"
  by (rule ext) (simp add: kept_def spec_dropped_def)

lemma to_markup_item_spec:
  "to_markup_item x =
     (case spec_child x of
        None \<Rightarrow> Inl (TypeError ''Unexpected child type'')
      | Some m \<Rightarrow> Inr m)"
  by (cases x) (simp_all add: text_markup_def)

lemma map_throwing_Cons:
  "map_throwing to_markup_item (x # xs) =
     (case spec_child x of
        None \<Rightarrow> Inl (TypeError ''Unexpected child type'')
      | Some m \<Rightarrow>
          (case map_throwing to_markup_item xs of
             Inl e \<Rightarrow> Inl e
           | Inr ys \<Rightarrow> Inr (m # ys)))"
  using to_markup_item_spec [of x] by (simp split: option.splits)

lemma map_throwing_Inr_D:
  "map_throwing to_markup_item xs = Inr ms \<Longrightarrow> map Some ms = map spec_child xs"
proof (induction xs arbitrary: ms)
  case Nil
  then show ?case by simp
next
  case (Cons x xs)
  from Cons.prems obtain m ys where
    "spec_child x = Some m" "map_throwing to_markup_item xs = Inr ys" "ms = m # ys"
    unfolding map_throwing_Cons by (auto split: option.splits sum.splits)
  with Cons.IH [of ys] show ?case by simp
qed

lemma map_throwing_Inr_I:
  "map Some ms = map spec_child xs \<Longrightarrow> map_throwing to_markup_item xs = Inr ms"
proof (induction xs arbitrary: ms)
  case Nil
  then show ?case by simp
next
  case (Cons x xs)
  from Cons.prems obtain m ys where
    ms: "ms = m # ys" and m: "spec_child x = Some m" and ys: "map Some ys = map spec_child xs"
    by (cases ms) auto
  from Cons.IH [OF ys] m ms show ?case
    unfolding map_throwing_Cons by simp
qed

lemma map_throwing_Inr:
  "map_throwing to_markup_item xs = Inr ms \<longleftrightarrow> map Some ms = map spec_child xs"
  using map_throwing_Inr_D map_throwing_Inr_I by blast

lemma map_throwing_Inl:
  "map_throwing to_markup_item xs = Inl e \<longleftrightarrow>
     e = TypeError ''Unexpected child type'' \<and> (\<exists>x \<in> set xs. spec_child x = None)"
proof (induction xs)
  case Nil
  then show ?case by simp
next
  case (Cons x xs)
  show ?case
    unfolding map_throwing_Cons using Cons.IH
    by (cases "spec_child x"; cases "map_throwing to_markup_item xs") auto
qed

lemma leaves_no_array: "x \<in> set (leaves r) \<Longrightarrow> \<not> is_array x"
proof (induction r arbitrary: x rule: leaves.induct)
  case (1 xs)
  then show ?case by auto
qed simp_all


text \<open>
  C5. For every argument of \<open>toMarkup\<close>, nested to any depth: the result is a list of
  markup exactly when every leaf that is not \<open>null\<close>, \<open>undefined\<close> or \<open>false\<close> is a
  markup node, a string, a number or a readable, and then it is those leaves in order,
  a markup node as it is and each of the others wrapped into a \<open>$text\<close> node; the call
  throws exactly when some such leaf is none of these, and what it throws is the
  \<open>Unexpected child type\<close> error. No array is left among the leaves, and \<open>0\<close> and the
  empty string are not dropped.
\<close>

theorem toMarkup_children:
  "(toMarkup r = Inr ms \<longleftrightarrow>
      map Some ms = map spec_child (filter (\<lambda>x. \<not> spec_dropped x) (leaves r)))
   \<and> (toMarkup r = Inl e \<longleftrightarrow>
        e = TypeError ''Unexpected child type''
        \<and> (\<exists>x \<in> set (filter (\<lambda>x. \<not> spec_dropped x) (leaves r)). spec_child x = None))
   \<and> list_all (\<lambda>x. \<not> is_array x) (leaves r)
   \<and> \<not> spec_dropped (RNumber 0) \<and> \<not> spec_dropped (RString [])"
proof -
  have eq: "toMarkup r =
      map_throwing to_markup_item (filter (\<lambda>x. \<not> spec_dropped x) (leaves r))"
    by (simp add: toMarkup_def flat_argument kept_not_dropped)
  have "list_all (\<lambda>x. \<not> is_array x) (leaves r)"
    using leaves_no_array by (auto simp: list_all_iff)
  then show ?thesis
    unfolding eq map_throwing_Inr map_throwing_Inl
    by (simp add: spec_dropped_def)
qed

subsection \<open>Router: a location that matches no route\<close>

lemma query_set_during_route_change:
  "isRouteChange r \<Longrightarrow> query_set q r = r\<lparr>query := q, isRouteChange := False\<rparr>"
  by (simp add: query_set_def query_observer_def)

text \<open>
  C6. For every location whose pathname matches no route, \<open>onRouteChange\<close> returns
  with the pattern absent, the path the raw pathname and the params the one entry
  \<open>wildcard\<close> holding the raw pathname; the active layers, the requested animation
  frames, the rendered handles, the connected handles, the children of every parent
  and the calls made are as before.
\<close>

theorem onRouteChange_no_match:
  assumes "matchRoutes (pathname loc) = None"
  shows "\<exists>r'. onRouteChange matchRoutes parseQueryParams loc r = Inr r'
           \<and> pattern r' = None
           \<and> path r' = pathname loc
           \<and> params r' = [(''wildcard'', pathname loc)]
           \<and> activeLayers r' = activeLayers r
           \<and> layer_frames r' = layer_frames r
           \<and> next_handle r' = next_handle r
           \<and> rendered r' = rendered r
           \<and> connected_handles r' = connected_handles r
           \<and> children_of r' = children_of r
           \<and> router_events r' = router_events r"
  using assms by (simp add: onRouteChange_def query_set_during_route_change)

theorem onRouteChange_no_match_witness:
  "example_routes (pathname \<lparr>pathname = ''/nowhere'', search = ''?page=2''\<rparr>) = None
   \<and> (\<exists>r'. onRouteChange example_routes id
               \<lparr>pathname = ''/nowhere'', search = ''?page=2''\<rparr> example_router = Inr r'
           \<and> pattern r' = None
           \<and> path r' = ''/nowhere''
           \<and> params r' = [(''wildcard'', ''/nowhere'')]
           \<and> activeLayers r' = activeLayers example_router
           \<and> layer_frames r' = []
           \<and> connected_handles r' = [10, 11, 12]
           \<and> router_events r' = [])"
proof -
  have unmatched:
    "example_routes (pathname \<lparr>pathname = ''/nowhere'', search = ''?page=2''\<rparr>) = None"
    by (simp add: example_routes_def)
  have fields:
    "layer_frames example_router = []"
    "connected_handles example_router = [10, 11, 12]"
    "router_events example_router = []"
    by (simp_all add: example_router_def)
  from onRouteChange_no_match
         [where matchRoutes = example_routes and parseQueryParams = id
            and r = example_router, OF unmatched]
       unmatched
  show ?thesis
    by (simp add: fields) blast
qed

subsection \<open>Router: diffing the layers\<close>

text \<open>
  The loop over the matched layers leaves the router as it is while the active layer
  at the position has the matched layer's id. At the first position where it has not,
  the active stack is cut there and the new layer pushed, so that from then on the
  stack ends just before every position the loop reaches: all the remaining layers
  are fresh.
\<close>

lemma first_mismatch_le:
  "first_mismatch xs ys \<le> length xs" "first_mismatch xs ys \<le> length ys"
  by (induction xs ys rule: first_mismatch.induct) simp_all

lemma diff_layer_match:
  "i < length (activeLayers r) \<Longrightarrow> active_id (activeLayers r ! i) = layer_id l \<Longrightarrow>
   diff_layer i l r = r"
  by (simp add: diff_layer_def nth_opt_def)

lemma diff_layer_mismatch:
  "map_option active_id (nth_opt (activeLayers r) i) \<noteq> Some (layer_id l) \<Longrightarrow>
   diff_layer i l r =
     r\<lparr>activeLayers :=
         take i (activeLayers r) @ [\<lparr>active_id = layer_id l, active_handle = next_handle r\<rparr>],
       next_handle := Suc (next_handle r),
       rendered := rendered r @ [(next_handle r, layer_markup l)],
       layer_frames := layer_frames r @
         [\<lparr>frame_activeLayer = nth_opt (activeLayers r) i,
           frame_parentLayer = last_opt (take i (activeLayers r)),
           frame_rendered = next_handle r\<rparr>]\<rparr>"
  by (simp add: diff_layer_def Let_def last_opt_def)

lemma diff_layers_fresh:
  "length (activeLayers r) = i \<Longrightarrow>
   diff_layers i ls r =
     r\<lparr>activeLayers := activeLayers r @ fresh_layers (next_handle r) ls,
       next_handle := next_handle r + length ls,
       rendered := rendered r @ fresh_rendered (next_handle r) ls,
       layer_frames := layer_frames r @
         fresh_frames (last_opt (activeLayers r)) (next_handle r) ls\<rparr>"
proof (induction ls arbitrary: r i)
  case Nil
  then show ?case by simp
next
  case (Cons l ls)
  have miss: "map_option active_id (nth_opt (activeLayers r) i) \<noteq> Some (layer_id l)"
    using Cons.prems by (simp add: nth_opt_def)
  show ?case
    using Cons.prems
    by (simp add: diff_layer_mismatch [OF miss] Cons.IH [of _ "Suc i"] last_opt_def nth_opt_def)
qed


lemma diff_layers_from:
  "i \<le> length (activeLayers r) \<Longrightarrow>
   diff_layers i ls r =
     (let k = first_mismatch (map active_id (drop i (activeLayers r))) (map layer_id ls)
      in if k = length ls then r
         else r\<lparr>activeLayers :=
                 take (i + k) (activeLayers r) @ fresh_layers (next_handle r) (drop k ls),
               next_handle := next_handle r + (length ls - k),
               rendered := rendered r @ fresh_rendered (next_handle r) (drop k ls),
               layer_frames := layer_frames r @
                 \<lparr>frame_activeLayer = nth_opt (activeLayers r) (i + k),
                  frame_parentLayer = last_opt (take (i + k) (activeLayers r)),
                  frame_rendered = next_handle r\<rparr>
                 # fresh_frames
                     (Some \<lparr>active_id = layer_id (ls ! k), active_handle = next_handle r\<rparr>)
                     (Suc (next_handle r)) (drop (Suc k) ls)\<rparr>)"
proof (induction ls arbitrary: i)
  case Nil
  then show ?case by simp
next
  case (Cons l ls)
  show ?case
  proof (cases "i < length (activeLayers r) \<and> active_id (activeLayers r ! i) = layer_id l")
    case True
    then have d: "drop i (activeLayers r) = activeLayers r ! i # drop (Suc i) (activeLayers r)"
      by (simp add: Cons_nth_drop_Suc)
    from True have "Suc i \<le> length (activeLayers r)" by simp
    from Cons.IH [OF this] True show ?thesis
      by (simp add: diff_layer_match d Let_def)
  next
    case False
    then have miss: "map_option active_id (nth_opt (activeLayers r) i) \<noteq> Some (layer_id l)"
      by (auto simp: nth_opt_def)
    have k: "first_mismatch (map active_id (drop i (activeLayers r)))
        (map layer_id (l # ls)) = 0"
    proof (cases "i < length (activeLayers r)")
      case True
      then have "drop i (activeLayers r) = activeLayers r ! i # drop (Suc i) (activeLayers r)"
        by (simp add: Cons_nth_drop_Suc)
      with True False show ?thesis by simp
    next
      case False
      then show ?thesis by simp
    qed
    let ?r1 = "diff_layer i l r"
    have len: "length (activeLayers ?r1) = Suc i"
      using Cons.prems by (simp add: diff_layer_mismatch [OF miss])
    show ?thesis
      unfolding diff_layers.simps diff_layers_fresh [OF len] k
      by (simp add: diff_layer_mismatch [OF miss] last_opt_def Let_def)
  qed
qed


lemma run_first_frame:
  "run_layer_frame
     \<lparr>frame_activeLayer = old, frame_parentLayer = parent, frame_rendered = n\<rparr> q =
   q\<lparr>connected_handles :=
       (case old of
          None \<Rightarrow> connected_handles q
        | Some a \<Rightarrow> removeAll (active_handle a) (connected_handles q)),
     children_of :=
       set_child (map_option active_handle parent) n (children_of q),
     router_events := router_events q
       @ (case old of
            None \<Rightarrow> []
          | Some a \<Rightarrow>
              (if active_handle a \<in> set (connected_handles q)
               then [HandleDisconnect (active_handle a)] else []))
       @ [SetChildren (map_option active_handle parent) n]\<rparr>"
  by (cases old) (simp_all add: run_layer_frame_def router_emit_def Let_def)

lemma run_fresh_frames:
  "router_events (foldl (\<lambda>r' f. run_layer_frame f r') q (fresh_frames parent n ls)) =
     router_events q @ attach_events (map_option active_handle parent) n (length ls)
   \<and> connected_handles (foldl (\<lambda>r' f. run_layer_frame f r') q (fresh_frames parent n ls)) =
       connected_handles q
   \<and> layer_frames (foldl (\<lambda>r' f. run_layer_frame f r') q (fresh_frames parent n ls)) =
       layer_frames q
   \<and> activeLayers (foldl (\<lambda>r' f. run_layer_frame f r') q (fresh_frames parent n ls)) =
       activeLayers q"
proof (induction ls arbitrary: parent n q)
  case Nil
  then show ?case by simp
next
  case (Cons l ls)
  show ?case
    by (simp add: Cons.IH run_first_frame)
qed


text \<open>
  C3. For every active stack and every matched chain of a route that is not a
  redirect and whose pattern is not the current one, with \<open>k\<close> the number of leading
  positions at which the ids agree: if \<open>k\<close> is the length of the matched chain,
  nothing is rendered, disconnected or attached. Otherwise the first \<open>k\<close> active
  layers stay, with their handles; every matched layer from position \<open>k\<close> on is
  rendered afresh; the animation frames disconnect the old layer at position \<open>k\<close> (when
  there is one and it is connected) and no other, attach the first fresh layer to the
  layer at position \<open>k - 1\<close> (to the app's root view when \<open>k\<close> is 0), and each further
  fresh layer to the fresh layer before it.
\<close>

theorem onRouteChange_layer_diffing:
  assumes "matchRoutes (pathname loc) = Some m"
    and "matched_redirect m = None"
    and "matched_layers m = Some layers"
    and "pattern r \<noteq> Some (matched_pattern m)"
    and "layer_frames r = []"
  shows
    "\<exists>r'. onRouteChange matchRoutes parseQueryParams loc r = Inr r'
       \<and> (let active = activeLayers r; n = next_handle r;
               k = first_mismatch (map active_id active) (map layer_id layers)
           in if k = length layers
              then activeLayers r' = active \<and> layer_frames r' = []
                   \<and> rendered r' = rendered r
                   \<and> router_events (run_layer_frames r') = router_events r
                   \<and> connected_handles (run_layer_frames r') = connected_handles r
              else activeLayers r' = take k active @ fresh_layers n (drop k layers)
                   \<and> rendered r' = rendered r @ fresh_rendered n (drop k layers)
                   \<and> router_events (run_layer_frames r') =
                       router_events r
                         @ (if k < length active \<and> active_handle (active ! k) \<in> set (connected_handles r)
                            then [HandleDisconnect (active_handle (active ! k))] else [])
                         @ attach_events
                             (if k = 0 then None else Some (active_handle (active ! (k - 1))))
                             n (length layers - k)
                   \<and> connected_handles (run_layer_frames r') =
                       (if k < length active
                        then removeAll (active_handle (active ! k)) (connected_handles r)
                        else connected_handles r)
                   \<and> activeLayers (run_layer_frames r') = activeLayers r'
                   \<and> layer_frames (run_layer_frames r') = [])"
proof -
  define r1 where "r1 =
    (if Some (search loc) \<noteq> lastQuery r
     then query_set (parseQueryParams (search loc))
            (r\<lparr>lastQuery := Some (search loc), isRouteChange := True\<rparr>)
     else r)"
  define r2 where "r2 = r1\<lparr>path := matched_path m, params := matched_params m,
    pattern := Some (matched_pattern m)\<rparr>"
  have same:
    "activeLayers r2 = activeLayers r" "next_handle r2 = next_handle r"
    "rendered r2 = rendered r" "layer_frames r2 = []" "connected_handles r2 = connected_handles r"
    "router_events r2 = router_events r" "pattern r1 = pattern r"
    using assms(5) by (simp_all add: r2_def r1_def query_set_def query_observer_def)
  have result: "onRouteChange matchRoutes parseQueryParams loc r = Inr (diff_layers 0 layers r2)"
    using assms(1-4) same(7)
    by (simp add: onRouteChange_def r1_def [symmetric] r2_def Let_def)
  let ?k = "first_mismatch (map active_id (activeLayers r)) (map layer_id layers)"
  have k_le: "?k \<le> length (activeLayers r)" "?k \<le> length layers"
    using first_mismatch_le [of "map active_id (activeLayers r)" "map layer_id layers"]
    by simp_all
  let ?n = "next_handle r"
  note diffed = diff_layers_from [of 0 r2 layers, simplified, unfolded same]
  show ?thesis
  proof (cases "?k = length layers")
    case True
    with diffed have "diff_layers 0 layers r2 = r2"
      by (simp add: Let_def)
    with True same show ?thesis
      unfolding result by (simp add: run_layer_frames_def Let_def)
  next
    case False
    with k_le(2) have less: "?k < length layers" by simp
    let ?old = "nth_opt (activeLayers r) ?k"
    let ?parent = "last_opt (take ?k (activeLayers r))"
    let ?new = "\<lparr>active_id = layer_id (layers ! ?k), active_handle = ?n\<rparr>"
    let ?first = "\<lparr>frame_activeLayer = ?old, frame_parentLayer = ?parent,
      frame_rendered = ?n\<rparr>"
    let ?frames = "?first # fresh_frames (Some ?new) (Suc ?n) (drop (Suc ?k) layers)"
    define r3 where "r3 = diff_layers 0 layers r2"
    have r3: "r3 = r2\<lparr>activeLayers :=
          take ?k (activeLayers r) @ fresh_layers ?n (drop ?k layers),
        next_handle := ?n + (length layers - ?k),
        rendered := rendered r @ fresh_rendered ?n (drop ?k layers),
        layer_frames := ?frames\<rparr>"
      unfolding r3_def using diffed False by (simp add: Let_def)
    define q where "q = run_layer_frame ?first (r3\<lparr>layer_frames := []\<rparr>)"
    have run: "run_layer_frames r3 =
        foldl (\<lambda>r' f. run_layer_frame f r') q
          (fresh_frames (Some ?new) (Suc ?n) (drop (Suc ?k) layers))"
      by (simp add: run_layer_frames_def q_def r3)
    have old: "?old = (if ?k < length (activeLayers r) then Some (activeLayers r ! ?k) else None)"
      by (simp add: nth_opt_def)
    have parent: "map_option active_handle ?parent =
        (if ?k = 0 then None else Some (active_handle (activeLayers r ! (?k - 1))))"
      using k_le(1) by (auto simp: last_opt_def last_conv_nth min_def)
    have count: "length layers - ?k = Suc (length (drop (Suc ?k) layers))"
      using less by simp
    have q_events: "router_events q =
        router_events r
          @ (if ?k < length (activeLayers r)
                \<and> active_handle (activeLayers r ! ?k) \<in> set (connected_handles r)
             then [HandleDisconnect (active_handle (activeLayers r ! ?k))] else [])
          @ [SetChildren (map_option active_handle ?parent) ?n]"
      and q_connected: "connected_handles q =
        (if ?k < length (activeLayers r)
         then removeAll (active_handle (activeLayers r ! ?k)) (connected_handles r)
         else connected_handles r)"
      and q_rest: "layer_frames q = []" "activeLayers q = activeLayers r3"
      unfolding q_def run_first_frame old
      by (simp_all add: r3 same)
    note folded = run_fresh_frames
      [of q "Some ?new" "Suc ?n" "drop (Suc ?k) layers"]
    have "router_events (run_layer_frames r3) =
        router_events r
          @ (if ?k < length (activeLayers r)
                \<and> active_handle (activeLayers r ! ?k) \<in> set (connected_handles r)
             then [HandleDisconnect (active_handle (activeLayers r ! ?k))] else [])
          @ attach_events
              (if ?k = 0 then None else Some (active_handle (activeLayers r ! (?k - 1))))
              ?n (length layers - ?k)"
      unfolding run count using folded by (simp add: q_events parent)
    moreover have "connected_handles (run_layer_frames r3) =
        (if ?k < length (activeLayers r)
         then removeAll (active_handle (activeLayers r ! ?k)) (connected_handles r)
         else connected_handles r)"
      unfolding run using folded by (simp add: q_connected)
    moreover have "layer_frames (run_layer_frames r3) = []"
      "activeLayers (run_layer_frames r3) = activeLayers r3"
      unfolding run using folded by (simp_all add: q_rest)
    moreover have "activeLayers r3 = take ?k (activeLayers r) @ fresh_layers ?n (drop ?k layers)"
      "rendered r3 = rendered r @ fresh_rendered ?n (drop ?k layers)"
      by (simp_all add: r3)
    ultimately show ?thesis
      unfolding result r3_def [symmetric] using False
      by (simp add: Let_def)
  qed
qed



theorem onRouteChange_layer_diffing_witness:
  "\<exists>r'. onRouteChange example_routes id \<lparr>pathname = ''/a/b/d'', search = []\<rparr>
           example_router = Inr r'
       \<and> activeLayers r' =
           [\<lparr>active_id = 1, active_handle = 10\<rparr>, \<lparr>active_id = 2, active_handle = 11\<rparr>,
            \<lparr>active_id = 4, active_handle = 13\<rparr>]
       \<and> rendered r' = [(13, 103)]
       \<and> router_events (run_layer_frames r') =
           [HandleDisconnect 12, SetChildren (Some 11) 13]
       \<and> connected_handles (run_layer_frames r') = [10, 11]"
proof -
  let ?m = "\<lparr>matched_pattern = ''/a/b/d'', matched_path = ''/a/b/d'', matched_params = [],
    matched_redirect = None,
    matched_layers =
      Some [\<lparr>layer_id = 1, layer_markup = 100\<rparr>, \<lparr>layer_id = 2, layer_markup = 101\<rparr>,
            \<lparr>layer_id = 4, layer_markup = 103\<rparr>]\<rparr>"
  let ?layers = "[\<lparr>layer_id = 1, layer_markup = 100\<rparr>, \<lparr>layer_id = 2, layer_markup = 101\<rparr>,
    \<lparr>layer_id = 4, layer_markup = 103\<rparr>]"
  have matched:
    "example_routes (pathname \<lparr>pathname = ''/a/b/d'', search = []\<rparr>) = Some ?m"
    by (simp add: example_routes_def)
  have changed: "pattern example_router \<noteq> Some (matched_pattern ?m)"
    by (simp add: example_router_def)
  have idle: "layer_frames example_router = []"
    by (simp add: example_router_def)
  have k: "first_mismatch (map active_id (activeLayers example_router))
      (map layer_id ?layers) = 2"
    by (simp add: example_router_def)
  have fields:
    "activeLayers example_router =
       [\<lparr>active_id = 1, active_handle = 10\<rparr>, \<lparr>active_id = 2, active_handle = 11\<rparr>,
        \<lparr>active_id = 3, active_handle = 12\<rparr>]"
    "next_handle example_router = 13"
    "rendered example_router = []"
    "router_events example_router = []"
    "connected_handles example_router = [10, 11, 12]"
    by (simp_all add: example_router_def)
  from onRouteChange_layer_diffing
         [where matchRoutes = example_routes and parseQueryParams = id
            and r = example_router and m = ?m and layers = ?layers,
          OF matched _ _ changed idle]
  show ?thesis
    unfolding Let_def k
    by (simp add: fields) blast
qed

subsection \<open>Spring: defaults, solver and setters\<close>

lemma real_arith_simps:
  "num_lit real_arith m e = of_int m / 10 ^ e"
  "num_add real_arith = (+)"
  "num_sub real_arith = (-)"
  "num_mul real_arith = (*)"
  "num_div real_arith = (/)"
  "num_neg real_arith = uminus"
  "num_less real_arith = (<)"
  "num_truthy real_arith x = (x \<noteq> 0)"
  "math_sqrt real_arith = sqrt"
  "math_cos real_arith = cos"
  "math_sin real_arith = sin"
  "math_exp real_arith = exp"
  "math_max real_arith xs = Max (set xs)"
  "math_min real_arith xs = Min (set xs)"
  by (simp_all add: real_arith_def)


text \<open>
  The source writes \<open>x + -v\<close> where the spec writes \<open>x - v\<close>; in the arithmetic of
  doubles the two are the same number, and that is the one thing assumed of the
  arithmetic.
\<close>

lemma solver_refines_spec:
  assumes "\<And>a b. num_add ar a (num_neg ar b) = num_sub ar a b"
  shows "makeSpringSolver ar
           \<lparr>solver_mass = m, solver_stiffness = k, solver_damping = d, solver_velocity = v0\<rparr> t =
         num_sub ar (num_lit ar 1 0) (spec_position ar m k d v0 t)"
  using assms
  by (simp add: makeSpringSolver_def spec_position_def spec_zeta_def spec_omega_def Let_def)


lemma solver_refines_spec_options:
  assumes "\<And>a b. num_add ar a (num_neg ar b) = num_sub ar a b"
  shows "makeSpringSolver ar options t =
         num_sub ar (num_lit ar 1 0)
           (spec_position ar (solver_mass options) (solver_stiffness options)
              (solver_damping options) (solver_velocity options) t)"
  using solver_refines_spec [OF assms] by (cases options) simp

text \<open>
  What \<open>step\<close> does for the animation that is current: it writes the interpolated
  value, and when the amplitude measured with the new sample is below the threshold
  it ends the animation and writes the end value over it.
\<close>

lemma step_current:
  "currentAnimationId s = Some (animation_id a) \<Longrightarrow>
   step ar now a s =
     (if below_threshold ar (sampled ar now a)
      then s\<lparr>currentValue := endValue a, currentAnimationId := None,
             requested := requested s @ [sampled ar now a]\<rparr>
      else s\<lparr>currentValue := frame_value ar (startValue a) (endValue a) (proportion_at ar now a),
             requested := requested s @ [sampled ar now a]\<rparr>)"
  by (simp add: step_def Let_def)


text \<open>
  C7. The defaults of \<open>spring\<close> are mass 2, stiffness 1200, damping 160, velocity 5,
  threshold 0.001 and a window of 20 samples. For every time \<open>t\<close> the solver returns
  one minus the position of the damped harmonic oscillator as the spec writes it
  (damping ratio below one, or not). A frame of the current animation at the time
  \<open>now\<close>, unless it is the frame that ends the animation, leaves the spring at the
  start value plus the distance to the end value times one minus the position at the
  elapsed time \<open>(now - startTime) / 1000\<close>, for the mass, stiffness, damping and
  velocity the animation was started with; the frame that ends the animation leaves
  it at the end value.
\<close>

theorem spring_defaults_and_solver:
  assumes "\<And>a b. num_add ar a (num_neg ar b) = num_sub ar a b"
  shows "spring_mass (spring ar x no_options) = num_lit ar 2 0
       \<and> spring_stiffness (spring ar x no_options) = num_lit ar 1200 0
       \<and> spring_damping (spring ar x no_options) = num_lit ar 160 0
       \<and> spring_velocity (spring ar x no_options) = num_lit ar 5 0
       \<and> spring_endAmplitude (spring ar x no_options) = num_lit ar 1 3
       \<and> spring_endWindow (spring ar x no_options) = 20
       \<and> makeSpringSolver ar
           \<lparr>solver_mass = m, solver_stiffness = k, solver_damping = d, solver_velocity = v0\<rparr> t =
         num_sub ar (num_lit ar 1 0) (spec_position ar m k d v0 t)
       \<and> (currentAnimationId s = Some (animation_id a)
            \<and> \<not> below_threshold ar (sampled ar now a) \<longrightarrow>
          spring_get (step ar now a s) =
            num_add ar (startValue a)
              (num_mul ar (num_sub ar (endValue a) (startValue a))
                 (num_sub ar (num_lit ar 1 0)
                    (spec_position ar (solver_mass (solver a)) (solver_stiffness (solver a))
                       (solver_damping (solver a)) (solver_velocity (solver a))
                       (num_div ar (num_sub ar now (startTime a)) (num_lit ar 1000 0))))))
       \<and> (currentAnimationId s = Some (animation_id a)
            \<and> below_threshold ar (sampled ar now a) \<longrightarrow>
          spring_get (step ar now a s) = endValue a)"
proof -
  have defaults:
    "spring_mass (spring ar x no_options) = num_lit ar 2 0"
    "spring_stiffness (spring ar x no_options) = num_lit ar 1200 0"
    "spring_damping (spring ar x no_options) = num_lit ar 160 0"
    "spring_velocity (spring ar x no_options) = num_lit ar 5 0"
    "spring_endAmplitude (spring ar x no_options) = num_lit ar 1 3"
    "spring_endWindow (spring ar x no_options) = 20"
    by (simp_all add: spring_def no_options_def nullish_def)
  have running: "spring_get (step ar now a s) =
      num_add ar (startValue a)
        (num_mul ar (num_sub ar (endValue a) (startValue a))
           (num_sub ar (num_lit ar 1 0)
              (spec_position ar (solver_mass (solver a)) (solver_stiffness (solver a))
                 (solver_damping (solver a)) (solver_velocity (solver a))
                 (num_div ar (num_sub ar now (startTime a)) (num_lit ar 1000 0)))))"
    if "currentAnimationId s = Some (animation_id a)"
      and "\<not> below_threshold ar (sampled ar now a)"
    using that
    by (simp add: step_current spring_get_def frame_value_def proportion_at_def Let_def
          solver_refines_spec_options [OF assms])
  have ending: "spring_get (step ar now a s) = endValue a"
    if "currentAnimationId s = Some (animation_id a)"
      and "below_threshold ar (sampled ar now a)"
    using that by (simp add: step_current spring_get_def)
  from running ending show ?thesis
    by (intro conjI impI defaults solver_refines_spec [OF assms]) blast+
qed

theorem spring_defaults_and_solver_witness:
  "(\<forall>a b. num_add real_arith a (num_neg real_arith b) = num_sub real_arith a b)
   \<and> spring_mass (spring real_arith 0 no_options) = 2
   \<and> spring_stiffness (spring real_arith 0 no_options) = 1200
   \<and> spring_damping (spring real_arith 0 no_options) = 160
   \<and> spring_velocity (spring real_arith 0 no_options) = 5
   \<and> spring_endAmplitude (spring real_arith 0 no_options) = 1 / 1000
   \<and> spring_endWindow (spring real_arith 0 no_options) = 20
   \<and> makeSpringSolver real_arith
        \<lparr>solver_mass = 2, solver_stiffness = 1200, solver_damping = 160, solver_velocity = 5\<rparr>
        (1 / 2) =
      1 - spec_position real_arith 2 1200 160 5 (1 / 2)
   \<and> currentAnimationId (example_spring\<lparr>currentAnimationId := Some 0\<rparr>) =
       Some (animation_id (example_animation\<lparr>samples := []\<rparr>))
   \<and> \<not> below_threshold real_arith
         (sampled real_arith 550 (example_animation\<lparr>samples := []\<rparr>))
   \<and> spring_get
       (step real_arith 550 (example_animation\<lparr>samples := []\<rparr>)
          (example_spring\<lparr>currentAnimationId := Some 0\<rparr>)) =
      3 + (7 - 3) * (1 - spec_position real_arith 1 1 2 0 (1 / 2))
   \<and> below_threshold real_arith (sampled real_arith 50 example_animation)
   \<and> spring_get
       (step real_arith 50 example_animation
          (example_spring\<lparr>currentAnimationId := Some 0\<rparr>)) = 7"
proof -
  let ?running = "example_spring\<lparr>currentAnimationId := Some 0\<rparr>"
  let ?first = "example_animation\<lparr>samples := []\<rparr>"
  have h: "\<And>a b. num_add real_arith a (num_neg real_arith b) = num_sub real_arith a b"
    by (simp add: real_arith_simps)
  note started =
    spring_defaults_and_solver [OF h, of 0 2 1200 160 5 "1 / 2" ?running ?first 550]
  note ended =
    spring_defaults_and_solver [OF h, of 0 2 1200 160 5 "1 / 2" ?running example_animation 50]
  have current: "currentAnimationId ?running = Some (animation_id ?first)"
    "currentAnimationId ?running = Some (animation_id example_animation)"
    by (simp_all add: example_animation_def)
  have goes_on: "\<not> below_threshold real_arith (sampled real_arith 550 ?first)"
    by (simp add: below_threshold_def sampled_def sample_def amplitude_value_def
          example_animation_def)
  have at_start: "proportion_at real_arith 50 example_animation = 0"
    by (simp add: proportion_at_def example_animation_def makeSpringSolver_def
          real_arith_simps)
  have ends: "below_threshold real_arith (sampled real_arith 50 example_animation)"
    by (simp add: below_threshold_def sampled_def sample_def amplitude_value_def at_start
          real_arith_simps)
       (simp add: example_animation_def)
  have fields: "startValue ?first = 3" "endValue ?first = 7" "startTime ?first = 50"
    "solver_mass (solver ?first) = 1" "solver_stiffness (solver ?first) = 1"
    "solver_damping (solver ?first) = 2" "solver_velocity (solver ?first) = 0"
    "endValue example_animation = 7"
    by (simp_all add: example_animation_def)
  have defaults:
    "spring_mass (spring real_arith 0 no_options) = 2"
    "spring_stiffness (spring real_arith 0 no_options) = 1200"
    "spring_damping (spring real_arith 0 no_options) = 160"
    "spring_velocity (spring real_arith 0 no_options) = 5"
    "spring_endAmplitude (spring real_arith 0 no_options) = 1 / 1000"
    "spring_endWindow (spring real_arith 0 no_options) = 20"
    using started by (simp_all add: real_arith_simps)
  have solved: "makeSpringSolver real_arith
        \<lparr>solver_mass = 2, solver_stiffness = 1200, solver_damping = 160, solver_velocity = 5\<rparr>
        (1 / 2) =
      1 - spec_position real_arith 2 1200 160 5 (1 / 2)"
    using started by (simp add: real_arith_simps)
  have "spring_get (step real_arith 550 ?first ?running) =
      num_add real_arith (startValue ?first)
        (num_mul real_arith (num_sub real_arith (endValue ?first) (startValue ?first))
           (num_sub real_arith (num_lit real_arith 1 0)
              (spec_position real_arith (solver_mass (solver ?first))
                 (solver_stiffness (solver ?first)) (solver_damping (solver ?first))
                 (solver_velocity (solver ?first))
                 (num_div real_arith (num_sub real_arith 550 (startTime ?first))
                    (num_lit real_arith 1000 0)))))"
    using started current(1) goes_on by blast
  then have animated: "spring_get (step real_arith 550 ?first ?running) =
      3 + (7 - 3) * (1 - spec_position real_arith 1 1 2 0 (1 / 2))"
    unfolding fields by (simp add: real_arith_simps)
  have "spring_get (step real_arith 50 example_animation ?running) =
      endValue example_animation"
    using ended current(2) ends by blast
  then have finished: "spring_get (step real_arith 50 example_animation ?running) = 7"
    unfolding fields .
  have neg: "\<forall>a b. num_add real_arith a (num_neg real_arith b) = num_sub real_arith a b"
    using h by blast
  show ?thesis
    by (intro conjI neg defaults solved current(1) goes_on animated ends finished)
qed

text \<open>The call of \<open>animateTo\<close>, and a step of an animation that is no longer current.\<close>

lemma animateTo_animated:
  "\<not> reduced \<Longrightarrow>
   animateTo reduced now v opts s =
     s\<lparr>nextId := Suc (nextId s), currentAnimationId := Some (nextId s),
       requested := requested s @
         [\<lparr>animation_id = nextId s, samples = [],
           resolution = nullish (endWindow opts) (spring_endWindow s),
           solver =
             \<lparr>solver_mass = nullish (mass opts) (spring_mass s),
              solver_stiffness = nullish (stiffness opts) (spring_stiffness s),
              solver_damping = nullish (damping opts) (spring_damping s),
              solver_velocity = nullish (velocity opts) (spring_velocity s)\<rparr>,
           startTime = now, startValue = currentValue s, endValue = v,
           threshold = nullish (endAmplitude opts) (spring_endAmplitude s)\<rparr>]\<rparr>"
  by (simp add: animateTo_def Let_def)

lemma step_stale:
  "currentAnimationId s \<noteq> Some (animation_id a) \<Longrightarrow>
   step ar now a s = s\<lparr>resolved := resolved s @ [animation_id a]\<rparr>"
  by (simp add: step_def)


text \<open>
  C10. The setters \<open>set\<close> and \<open>update\<close> are \<open>animateTo\<close> without options. Unless the
  user prefers reduced motion, the call leaves the current value as it was and
  requests the first frame of an animation from that value to the new one; with
  reduced motion it is \<open>snapTo\<close> and the value is the new one at once. A frame of the
  current animation writes the interpolated value while the amplitude is not below
  the threshold; the frame in which it is below writes the end value and ends the
  animation, and the value stays there in the frame after.
\<close>

theorem spring_setters_animate:
  "spring_set reduced now v s = animateTo reduced now v no_options s
   \<and> spring_update reduced now f s = animateTo reduced now (f (spring_get s)) no_options s
   \<and> (\<not> reduced \<longrightarrow>
        spring_get (animateTo reduced now v opts s) = spring_get s
        \<and> currentAnimationId (animateTo reduced now v opts s) = Some (nextId s)
        \<and> (\<exists>a. requested (animateTo reduced now v opts s) = requested s @ [a]
                \<and> animation_id a = nextId s \<and> startValue a = spring_get s
                \<and> endValue a = v))
   \<and> (reduced \<longrightarrow>
        animateTo reduced now v opts s = snapTo v s
        \<and> spring_get (animateTo reduced now v opts s) = v)
   \<and> (currentAnimationId s = Some (animation_id a) \<and> \<not> below_threshold ar (sampled ar t a) \<longrightarrow>
        spring_get (step ar t a s) =
          frame_value ar (startValue a) (endValue a) (proportion_at ar t a)
        \<and> currentAnimationId (step ar t a s) = Some (animation_id a))
   \<and> (currentAnimationId s = Some (animation_id a) \<and> below_threshold ar (sampled ar t a) \<longrightarrow>
        spring_get (step ar t a s) = endValue a
        \<and> currentAnimationId (step ar t a s) = None
        \<and> spring_get (step ar t' (sampled ar t a) (step ar t a s)) = endValue a)"
  by (simp add: spring_set_def spring_update_def spring_get_def animateTo_animated
        step_current step_stale)
     (simp add: animateTo_def snapTo_def)

theorem spring_setters_animate_witness:
  "spring_get (spring_set False 50 7 example_spring) = 3
   \<and> currentAnimationId (spring_set False 50 7 example_spring) = Some 0
   \<and> spring_get (spring_set True 50 7 example_spring) = 7
   \<and> spring_get (spring_update False 50 (\<lambda>x. x + 4) example_spring) = 3
   \<and> currentAnimationId (example_spring\<lparr>currentAnimationId := Some 0\<rparr>) =
       Some (animation_id example_animation)
   \<and> below_threshold real_arith (sampled real_arith 50 example_animation)
   \<and> spring_get
       (step real_arith 50 example_animation
          (example_spring\<lparr>currentAnimationId := Some 0\<rparr>)) = 7
   \<and> \<not> below_threshold real_arith
         (sampled real_arith 50 (example_animation\<lparr>samples := []\<rparr>))
   \<and> spring_get
       (step real_arith 50 (example_animation\<lparr>samples := []\<rparr>)
          (example_spring\<lparr>currentAnimationId := Some 0\<rparr>)) = 3"
proof -
  let ?running = "example_spring\<lparr>currentAnimationId := Some 0\<rparr>"
  let ?first = "example_animation\<lparr>samples := []\<rparr>"
  have rest: "spring_get example_spring = 3" "nextId example_spring = 0"
    by (simp_all add: example_spring_def spring_def spring_get_def)
  have current: "currentAnimationId ?running = Some (animation_id example_animation)"
    by (simp add: example_animation_def)
  have current': "currentAnimationId ?running = Some (animation_id ?first)"
    by (simp add: example_animation_def)
  have start: "proportion_at real_arith 50 example_animation = 0"
    "proportion_at real_arith 50 ?first = 0"
    by (simp_all add: proportion_at_def example_animation_def makeSpringSolver_def
          real_arith_simps)
  have ends: "below_threshold real_arith (sampled real_arith 50 example_animation)"
    by (simp add: below_threshold_def sampled_def sample_def amplitude_value_def start
          real_arith_simps)
       (simp add: example_animation_def)
  have goes_on: "\<not> below_threshold real_arith (sampled real_arith 50 ?first)"
    by (simp add: below_threshold_def sampled_def sample_def amplitude_value_def start)
       (simp add: example_animation_def)
  have endpoints: "startValue ?first = 3" "endValue ?first = 7"
    "endValue example_animation = 7"
    by (simp_all add: example_animation_def)
  note animated =
    spring_setters_animate [of False 50 7 example_spring "\<lambda>x. x + 4" no_options
      example_animation real_arith 50 50]
  note snapped =
    spring_setters_animate [of True 50 7 example_spring "\<lambda>x. x + 4" no_options
      example_animation real_arith 50 50]
  note ending =
    spring_setters_animate [of False 50 7 ?running "\<lambda>x. x + 4" no_options
      example_animation real_arith 50 50]
  note going =
    spring_setters_animate [of False 50 7 ?running "\<lambda>x. x + 4" no_options
      ?first real_arith 50 50]
  have 1: "spring_get (spring_set False 50 7 example_spring) = 3"
    and 2: "currentAnimationId (spring_set False 50 7 example_spring) = Some 0"
    using animated rest by simp_all
  have 3: "spring_get (spring_set True 50 7 example_spring) = 7"
    using snapped by metis
  have 4: "spring_get (spring_update False 50 (\<lambda>x. x + 4) example_spring) = 3"
    using spring_setters_animate [of False 50 "spring_get example_spring + 4"
        example_spring "\<lambda>x. x + 4" no_options example_animation real_arith 50 50] rest
    by simp
  have 5: "spring_get (step real_arith 50 example_animation ?running) = 7"
    using ending current ends endpoints by simp
  have 6: "spring_get (step real_arith 50 ?first ?running) = 3"
    using going current' goes_on endpoints start(2)
    by (simp add: frame_value_def real_arith_simps)
  from 1 2 3 4 current ends 5 goes_on 6 show ?thesis
    by blast
qed

subsection \<open>View explorer: names derived from identifiers\<close>

text \<open>
  C8. The claim: \<open>sentenceCase("myViewName")\<close> is \<open>My view name\<close> and \<open>slugCase\<close> of it
  is \<open>my-view-name\<close>, and \<open>HTTPRequestExample\<close> gives \<open>HTTP request example\<close> and
  \<open>http-request-example\<close>. The comment above \<open>SPLIT_REGEXP\<close> says that camel case is
  split, and the two functions do not split it, wherever the evaluation of the module
  stands. Called from the loop at lines 120 to 122, where the module makes all of its
  calls, they read \<open>SPLIT_REGEXP\<close> before its declaration and throw a
  \<open>ReferenceError\<close>. Bundled, they read \<open>undefined\<close>, and \<open>replace\<close> looks for the
  text \<open>undefined\<close>. After the declarations \<open>replace\<close> is given the array of the two
  regular expressions, which is not a regular expression: it looks for the text of
  the array. In both cases nothing is split and the whole identifier is lower-cased
  as one word.
\<close>

theorem camel_case_not_split:
  "sentenceCase at_top_level_loop ''myViewName'' =
     Inl (ReferenceError ''Cannot access SPLIT_REGEXP before initialization'')
   \<and> slugCase at_top_level_loop ''myViewName'' =
     Inl (ReferenceError ''Cannot access SPLIT_REGEXP before initialization'')
   \<and> sentenceCase at_top_level_loop ''HTTPRequestExample'' =
     Inl (ReferenceError ''Cannot access SPLIT_REGEXP before initialization'')
   \<and> slugCase at_top_level_loop ''HTTPRequestExample'' =
     Inl (ReferenceError ''Cannot access SPLIT_REGEXP before initialization'')
   \<and> sentenceCase at_top_level_loop_bundled ''myViewName'' = Inr ''Myviewname''
   \<and> slugCase at_top_level_loop_bundled ''myViewName'' = Inr ''myviewname''
   \<and> sentenceCase at_top_level_loop_bundled ''HTTPRequestExample'' = Inr ''Httprequestexample''
   \<and> slugCase at_top_level_loop_bundled ''HTTPRequestExample'' = Inr ''httprequestexample''
   \<and> sentenceCase after_declarations ''myViewName'' = Inr ''Myviewname''
   \<and> slugCase after_declarations ''myViewName'' = Inr ''myviewname''
   \<and> sentenceCase after_declarations ''HTTPRequestExample'' = Inr ''Httprequestexample''
   \<and> slugCase after_declarations ''HTTPRequestExample'' = Inr ''httprequestexample''"
  by code_simp

subsection \<open>View explorer: a file that exports a single function\<close>

text \<open>
  For a file that exports a function, \<open>formatCollection\<close> pushes the name \<open>@default\<close>
  and then builds the helpers object with \<open>sentenceCase(name)\<close>. In the loop at lines
  120 to 122 of the module as it is written, that call throws.
\<close>

lemma sentenceCase_before_declarations:
  "sentenceCase at_top_level_loop input =
     Inl (ReferenceError ''Cannot access SPLIT_REGEXP before initialization'')"
  by (simp add: sentenceCase_def tokens_def delimited_def at_top_level_loop_def)


text \<open>
  C9. The claim: a view file whose exports are a single function gives a collection
  with exactly one entry, named \<open>@default\<close>, whose path is the collection's path.
  \<open>formatCollection\<close> does push the name \<open>@default\<close> and does compare \<open>helpers.name\<close>
  with it. Called from the loop at lines 120 to 122, which makes the module's only
  calls, it throws a \<open>ReferenceError\<close> for every file that exports a function, and
  \<open>nextId\<close> stays as it was. For the file \<open>components/Button.view.jsx\<close> exporting a
  function that returns a template: bundled, the one entry is named \<open>@default\<close> and
  has the collection's path; after the declarations it would be named \<open>Default\<close> and
  its path would have the extra segment \<open>/default\<close>.
\<close>

theorem formatCollection_single_function_entry:
  "formatCollection at_top_level_loop n
     \<lparr>relativePath = file, exports = ExportsFunction fn\<rparr> =
   (Inl (ReferenceError ''Cannot access SPLIT_REGEXP before initialization''), n)
   \<and> formatCollection at_top_level_loop_bundled 0
        \<lparr>relativePath = ''components/Button.view.jsx'',
         exports = ExportsFunction \<lparr>calls = [], returns = Some 7\<rparr>\<rparr> =
      (Inr \<lparr>collection_path = ''/components/Button'',
            collection_views =
              [\<lparr>view_id = 0, view_path = ''/components/Button'',
                view_name = ''@default'', view_description = None,
                view_services = [], view_template = 7\<rparr>]\<rparr>, 1)
   \<and> formatCollection after_declarations 0
        \<lparr>relativePath = ''components/Button.view.jsx'',
         exports = ExportsFunction \<lparr>calls = [], returns = Some 7\<rparr>\<rparr> =
      (Inr \<lparr>collection_path = ''/components/Button'',
            collection_views =
              [\<lparr>view_id = 0, view_path = ''/components/Button/default'',
                view_name = ''Default'', view_description = None,
                view_services = [], view_template = 7\<rparr>]\<rparr>, 1)"
proof (intro conjI)
  show "formatCollection at_top_level_loop n
      \<lparr>relativePath = file, exports = ExportsFunction fn\<rparr> =
    (Inl (ReferenceError ''Cannot access SPLIT_REGEXP before initialization''), n)"
    by (simp add: formatCollection_def collect_fns_def format_view_def
          sentenceCase_before_declarations Let_def)
qed code_simp+
end
